theory Spec2Isabelle
  imports Complex_Main "HOL-Library.Word" "HOL-Library.Log_Nat"
begin

unbundle bit_operations_syntax

section \<open>Machine types and errors\<close>

type_synonym u8 = "8 word"
type_synonym u16 = "16 word"
type_synonym u32 = "32 word"

text \<open>
  The error values of package \<open>protocol\<close>: \<open>ErrChannelNotSupported\<close> and
  \<open>ErrInvalidResponseLength\<close> are its two package variables; \<open>ErrInvalidDataLength n\<close> is
  the value built by \<open>fmt.Errorf("invalid data length: %d", n)\<close> in \<open>ReadData\<close>;
  \<open>ErrTransport\<close> is any error handed back by the transport; \<open>PanicSliceBounds\<close> and
  \<open>PanicIndex\<close> are the two run-time panics of Go that the code can reach (a slice
  expression whose bounds exceed the slice, an index beyond its length).
\<close>

datatype error =
    ErrChannelNotSupported
  | ErrInvalidResponseLength
  | ErrInvalidDataLength u16
  | ErrTransport
  | PanicSliceBounds
  | PanicIndex

text \<open>Sequencing of fallible steps: the first failure is the result.\<close>

definition and_then :: "error + 'a \<Rightarrow> ('a \<Rightarrow> error + 'b) \<Rightarrow> error + 'b" where
  "and_then r f = (case r of Inl e \<Rightarrow> Inl e | Inr v \<Rightarrow> f v)"

text \<open>
  The slice expression \<open>data[lo:hi]\<close> of Go on a slice. Its bounds are checked against
  the capacity of the slice, not its length: it panics unless \<open>lo \<le> hi \<le> cap(data)\<close>.
  \<open>data\<close> holds the elements within the length, \<open>spare\<close> the elements of the backing
  array between the length and the capacity. The result has length \<open>hi - lo\<close>.
\<close>

definition slice :: "u8 list \<Rightarrow> u8 list \<Rightarrow> nat \<Rightarrow> nat \<Rightarrow> error + u8 list" where
  "slice spare data lo hi =
     (if lo \<le> hi \<and> hi \<le> length data + length spare
      then Inr (take (hi - lo) (drop lo (data @ spare)))
      else Inl PanicSliceBounds)"

section \<open>Package internal/utils: little-endian conversions\<close>

text \<open>
  \<open>binary.LittleEndian.Uint16\<close> and \<open>Uint32\<close> index the last byte they need first, and so
  panic on a shorter slice; the \<open>Put\<close> functions write into a fresh slice of the right size.
\<close>

definition BytesToDword :: "u8 list \<Rightarrow> error + u32" where
  "BytesToDword data =
     (if length data < 4 then Inl PanicIndex
      else Inr (ucast (data ! 0) OR push_bit 8 (ucast (data ! 1))
                OR push_bit 16 (ucast (data ! 2)) OR push_bit 24 (ucast (data ! 3))))"

definition DwordToBytes :: "u32 \<Rightarrow> u8 list" where
  "DwordToBytes v = [ucast v, ucast (drop_bit 8 v), ucast (drop_bit 16 v), ucast (drop_bit 24 v)]"

text \<open>
  The signed types \<open>int32\<close> and \<open>int16\<close> are words read with \<open>sint\<close>; the conversions
  \<open>int32(u)\<close> and \<open>uint32(i)\<close> keep the bits.
\<close>

definition BytesToLong :: "u8 list \<Rightarrow> error + u32" where
  "BytesToLong data = BytesToDword data"

definition LongToBytes :: "u32 \<Rightarrow> u8 list" where
  "LongToBytes v = DwordToBytes v"

definition BytesToWord :: "u8 list \<Rightarrow> error + u16" where
  "BytesToWord data =
     (if length data < 2 then Inl PanicIndex
      else Inr (ucast (data ! 0) OR push_bit 8 (ucast (data ! 1))))"

definition WordToBytes :: "u16 \<Rightarrow> u8 list" where
  "WordToBytes v = [ucast v, ucast (drop_bit 8 v)]"

definition BytesToShort :: "u8 list \<Rightarrow> error + u16" where
  "BytesToShort data = BytesToWord data"

section \<open>The transport\<close>

text \<open>
  Modelled from the spec: the Transport capability (package \<open>unicomm\<close>, an external
  dependency of the repository). \<open>write\<close> sends a frame; \<open>read n\<close> blocks until exactly
  \<open>n\<close> bytes are available or fails. The state holds the bytes the device has sent and
  the host has not read yet, whether the link works, and the trace of every call made
  on the transport, successful or not. Neither the source nor the spec says with what
  capacity \<open>read\<close> returns its slice: \<open>spare_capacity\<close> holds the elements that lie
  behind the \<open>n\<close> bytes of a slice it returns, none when it returns slices of capacity
  \<open>n\<close>.
\<close>

datatype io_event = IoWrite "u8 list" | IoRead nat

record unicomm =
  link_up :: bool
  pending :: "u8 list"
  trace :: "io_event list"
  spare_capacity :: "u8 list"

definition comm_Write :: "unicomm \<Rightarrow> u8 list \<Rightarrow> error option \<times> unicomm" where
  "comm_Write c bytes =
     (let c' = c\<lparr>trace := trace c @ [IoWrite bytes]\<rparr>
      in if link_up c then (None, c') else (Some ErrTransport, c'))"

definition comm_Read :: "unicomm \<Rightarrow> nat \<Rightarrow> (error + u8 list) \<times> unicomm" where
  "comm_Read c n =
     (let c' = c\<lparr>trace := trace c @ [IoRead n]\<rparr>
      in if link_up c \<and> n \<le> length (pending c)
         then (Inr (take n (pending c)), c'\<lparr>pending := drop n (pending c)\<rparr>)
         else (Inl ErrTransport, c'))"

section \<open>The type float64\<close>

text \<open>
  A \<open>float64\<close> is a finite binary64 number, held as the rational it denotes, or an
  infinity, or NaN. The sign of zero is not kept: the program never divides by a zero
  that could be negative (its divisors are products of the calibration constants) and
  converts every other float to an integer, where both zeros give 0.
  Every arithmetic operation of IEEE 754 is the exact operation followed by
  \<open>f64_round\<close>, rounding to the nearest binary64 number, ties to the even significand,
  with gradual underflow below \<open>2^-1022\<close> and overflow to an infinity from \<open>2^1024\<close>.
\<close>

datatype f64 = Fin rat | PInf | NInf | NaN

definition pow2 :: "int \<Rightarrow> rat" where
  "pow2 e = (if 0 \<le> e then 2 ^ nat e else 1 / 2 ^ nat (- e))"

text \<open>\<open>ilog2 a\<close> is the binary exponent of \<open>a > 0\<close>: \<open>2^(ilog2 a) \<le> a < 2^(ilog2 a + 1)\<close>.\<close>

definition ilog2 :: "rat \<Rightarrow> int" where
  "ilog2 a = (case quotient_of a of (n, d) \<Rightarrow>
                let k = bitlen n - bitlen d in if pow2 k \<le> a then k else k - 1)"

definition round_half_even :: "rat \<Rightarrow> int" where
  "round_half_even x =
     (let f = \<lfloor>x\<rfloor>; r = x - of_int f
      in if r < 1 / 2 then f else if 1 / 2 < r then f + 1 else if even f then f else f + 1)"

definition f64_inf :: "bool \<Rightarrow> f64" where
  "f64_inf negative = (if negative then NInf else PInf)"

definition f64_round :: "rat \<Rightarrow> f64" where
  "f64_round q =
     (if q = 0 then Fin 0
      else let a = \<bar>q\<bar>;
               e = max (ilog2 a - 52) (- 1074);
               r = of_int (round_half_even (a / pow2 e)) * pow2 e
           in if pow2 1024 \<le> r then f64_inf (q < 0)
              else Fin (if q < 0 then - r else r))"

text \<open>\<open>is_neg x\<close> is the comparison \<open>x < 0\<close>: false on NaN.\<close>

fun is_neg :: "f64 \<Rightarrow> bool" where
  "is_neg (Fin a) = (a < 0)"
| "is_neg NInf = True"
| "is_neg PInf = False"
| "is_neg NaN = False"

definition f64_mul :: "f64 \<Rightarrow> f64 \<Rightarrow> f64" where
  "f64_mul x y =
     (if x = NaN \<or> y = NaN then NaN
      else case (x, y) of
             (Fin a, Fin b) \<Rightarrow> f64_round (a * b)
           | _ \<Rightarrow> if x = Fin 0 \<or> y = Fin 0 then NaN else f64_inf (is_neg x \<noteq> is_neg y))"

definition f64_div :: "f64 \<Rightarrow> f64 \<Rightarrow> f64" where
  "f64_div x y =
     (if x = NaN \<or> y = NaN then NaN
      else case (x, y) of
             (Fin a, Fin b) \<Rightarrow>
               if b = 0 then (if a = 0 then NaN else f64_inf (a < 0)) else f64_round (a / b)
           | (Fin a, _) \<Rightarrow> Fin 0
           | (_, Fin b) \<Rightarrow> f64_inf (is_neg x \<noteq> (b < 0))
           | _ \<Rightarrow> NaN)"

text \<open>An integer of at most 32 bits converts to \<open>float64\<close> exactly.\<close>

definition f64_of_int :: "int \<Rightarrow> f64" where
  "f64_of_int i = Fin (of_int i)"

text \<open>
  The conversions \<open>int32(x)\<close> and \<open>uint32(x)\<close> of a float discard the fraction (truncation
  towards zero). Where the truncated value does not fit the target type, or \<open>x\<close> is an
  infinity or NaN, the conversion succeeds and Go leaves the result to the
  implementation. For \<open>uint32\<close> the Go compiler on a 64-bit platform converts to a 64-bit
  signed integer and keeps the low 32 bits, so a value whose truncation fits 64 bits
  wraps around modulo \<open>2^32\<close>. Everything else the model leaves unspecified, as an unknown
  function of \<open>x\<close> for each of the two conversions.
\<close>

definition trunc_rat :: "rat \<Rightarrow> int" where
  "trunc_rat q = (if 0 \<le> q then \<lfloor>q\<rfloor> else - \<lfloor>- q\<rfloor>)"

definition implementation_dependent_int32 :: "f64 \<Rightarrow> u32" where
  "implementation_dependent_int32 = undefined"

definition implementation_dependent_uint32 :: "f64 \<Rightarrow> u32" where
  "implementation_dependent_uint32 = undefined"

definition f64_to_int32 :: "f64 \<Rightarrow> u32" where
  "f64_to_int32 x =
     (case x of
        Fin q \<Rightarrow> if - (2 ^ 31) \<le> trunc_rat q \<and> trunc_rat q < 2 ^ 31
                 then word_of_int (trunc_rat q) else implementation_dependent_int32 x
      | _ \<Rightarrow> implementation_dependent_int32 x)"

definition f64_to_uint32 :: "f64 \<Rightarrow> u32" where
  "f64_to_uint32 x =
     (case x of
        Fin q \<Rightarrow> if - (2 ^ 63) \<le> trunc_rat q \<and> trunc_rat q < 2 ^ 63
                 then word_of_int (trunc_rat q) else implementation_dependent_uint32 x
      | _ \<Rightarrow> implementation_dependent_uint32 x)"

section \<open>Package protocol: messages and framing (protocol.go)\<close>

type_synonym Endpoint = u8

record HeaderMessage =
  ID :: u16
  Parameter1 :: u8
  Parameter2 :: u8
  Destination :: Endpoint
  Source :: Endpoint

record DataMessage =
  ID :: u16
  DataLength :: u16
  Destination :: Endpoint
  Source :: Endpoint
  Data :: "u8 list"

record KDC101 =
  Communication :: unicomm
  StageType :: string
  MotorType :: string

definition Host :: Endpoint where "Host = 0x01"
definition Rack :: Endpoint where "Rack = 0x02"
definition GenericUnit :: Endpoint where "GenericUnit = 0x50"

text \<open>The byte slice that \<open>WriteHeaderOnly\<close> builds.\<close>

definition header_bytes :: "HeaderMessage \<Rightarrow> u8 list" where
  "header_bytes msg =
     [ucast (HeaderMessage.ID msg AND 0x00FF), ucast (drop_bit 8 (HeaderMessage.ID msg)),
      Parameter1 msg, Parameter2 msg, HeaderMessage.Destination msg, HeaderMessage.Source msg]"

definition WriteHeaderOnly :: "KDC101 \<Rightarrow> HeaderMessage \<Rightarrow> error option \<times> KDC101" where
  "WriteHeaderOnly k msg =
     (case comm_Write (Communication k) (header_bytes msg) of
        (r, c) \<Rightarrow> (r, k\<lparr>Communication := c\<rparr>))"

text \<open>The byte slice that \<open>WriteData\<close> builds: the six header bytes, then \<open>msg.Data\<close>.\<close>

definition data_bytes :: "DataMessage \<Rightarrow> u8 list" where
  "data_bytes msg =
     [ucast (DataMessage.ID msg AND 0x00FF), ucast (drop_bit 8 (DataMessage.ID msg)),
      ucast (DataLength msg AND 0x00FF), ucast (drop_bit 8 (DataLength msg)),
      DataMessage.Destination msg OR 0x80, DataMessage.Source msg] @ Data msg"

definition WriteData :: "KDC101 \<Rightarrow> DataMessage \<Rightarrow> error option \<times> KDC101" where
  "WriteData k msg =
     (case comm_Write (Communication k) (data_bytes msg) of
        (r, c) \<Rightarrow> (r, k\<lparr>Communication := c\<rparr>))"

text \<open>
  The reads index \<open>response[0]\<close> to \<open>response[5]\<close>: the transport returned exactly the six
  bytes asked for, so each index is in range.
\<close>

definition ReadHeaderOnly :: "KDC101 \<Rightarrow> (error + HeaderMessage) \<times> KDC101" where
  "ReadHeaderOnly k =
     (case comm_Read (Communication k) 6 of
        (Inl err, c) \<Rightarrow> (Inl err, k\<lparr>Communication := c\<rparr>)
      | (Inr response, c) \<Rightarrow>
          (Inr \<lparr>HeaderMessage.ID = push_bit 8 (ucast (response ! 1)) OR ucast (response ! 0),
                Parameter1 = response ! 2,
                Parameter2 = response ! 3,
                HeaderMessage.Destination = response ! 4,
                HeaderMessage.Source = response ! 5\<rparr>,
           k\<lparr>Communication := c\<rparr>))"

definition ReadData :: "KDC101 \<Rightarrow> (error + DataMessage) \<times> KDC101" where
  "ReadData k =
     (case comm_Read (Communication k) 6 of
        (Inl err, c) \<Rightarrow> (Inl err, k\<lparr>Communication := c\<rparr>)
      | (Inr response, c) \<Rightarrow>
          (let msg = \<lparr>DataMessage.ID = push_bit 8 (ucast (response ! 1)) OR ucast (response ! 0),
                      DataLength = push_bit 8 (ucast (response ! 3)) OR ucast (response ! 2),
                      DataMessage.Destination = response ! 4,
                      DataMessage.Source = response ! 5,
                      Data = []\<rparr>
           in if DataLength msg < 1
              then (Inl (ErrInvalidDataLength (DataLength msg)), k\<lparr>Communication := c\<rparr>)
              else (case comm_Read c (unat (DataLength msg)) of
                      (Inl err, c') \<Rightarrow> (Inl err, k\<lparr>Communication := c'\<rparr>)
                    | (Inr data, c') \<Rightarrow> (Inr (msg\<lparr>Data := data\<rparr>), k\<lparr>Communication := c'\<rparr>))))"

text \<open>
  The two request shapes. The settle delays (\<open>time.Sleep\<close> of 15 ms and 50 ms between
  the write and the read) have no effect on the values and are not part of the state.
\<close>

definition RequestHeaderOnly :: "KDC101 \<Rightarrow> HeaderMessage \<Rightarrow> (error + HeaderMessage) \<times> KDC101" where
  "RequestHeaderOnly k msg =
     (case WriteHeaderOnly k msg of
        (Some err, k') \<Rightarrow> (Inl err, k')
      | (None, k') \<Rightarrow> ReadHeaderOnly k')"

definition RequestData :: "KDC101 \<Rightarrow> HeaderMessage \<Rightarrow> (error + DataMessage) \<times> KDC101" where
  "RequestData k msg =
     (case WriteHeaderOnly k msg of
        (Some err, k') \<Rightarrow> (Inl err, k')
      | (None, k') \<Rightarrow> ReadData k')"

section \<open>Calibration tables and unit conversion (utils.go)\<close>

text \<open>
  The two package maps. A constant of the source becomes a \<open>float64\<close> by rounding its
  exact value; indexing a Go map with a key it does not hold gives the zero value.
\<close>

definition MotorTFactor :: "string \<rightharpoonup> f64" where
  "MotorTFactor =
     [''Brushed'' \<mapsto> f64_round (2048 / (6 * 1000000)),
      ''Brushless'' \<mapsto> f64_round (2048 / (6 * 1000000))]"

definition StageScalingFactor :: "string \<rightharpoonup> f64" where
  "StageScalingFactor =
     [''MTS25-Z8'' \<mapsto> f64_round (3455496 / 100),
      ''MTS50-Z8'' \<mapsto> f64_round (3455496 / 100),
      ''Z8xx'' \<mapsto> f64_round (3455496 / 100),
      ''Z6xx'' \<mapsto> f64_round 24600,
      ''PRM1-Z8'' \<mapsto> f64_round (19196418578623391 / 10000000000000),
      ''PRMTZ8'' \<mapsto> f64_round (19196418578623391 / 10000000000000),
      ''CR1-Z7'' \<mapsto> f64_round 12288,
      ''KVS30'' \<mapsto> f64_round 20000]"

definition map_index :: "(string \<rightharpoonup> f64) \<Rightarrow> string \<Rightarrow> f64" where
  "map_index m key = (case m key of None \<Rightarrow> Fin 0 | Some v \<Rightarrow> v)"

definition PositionToCounts :: "KDC101 \<Rightarrow> f64 \<Rightarrow> u32" where
  "PositionToCounts k position =
     (let encCount = map_index StageScalingFactor (StageType k)
      in f64_to_int32 (f64_mul position encCount))"

definition CountsToPosition :: "KDC101 \<Rightarrow> u32 \<Rightarrow> f64" where
  "CountsToPosition k counts =
     (let encCount = map_index StageScalingFactor (StageType k)
      in f64_div (f64_of_int (sint counts)) encCount)"

definition VelocityToCounts :: "KDC101 \<Rightarrow> f64 \<Rightarrow> u32" where
  "VelocityToCounts k velocity =
     (let encCount = map_index StageScalingFactor (StageType k);
          T = map_index MotorTFactor (MotorType k)
      in f64_to_uint32 (f64_mul (f64_mul (f64_mul velocity T) (Fin 65536)) encCount))"

definition CountsToVelocity :: "KDC101 \<Rightarrow> u32 \<Rightarrow> f64" where
  "CountsToVelocity k counts =
     (let encCount = map_index StageScalingFactor (StageType k);
          T = map_index MotorTFactor (MotorType k)
      in f64_div (f64_of_int (uint counts)) (f64_mul (f64_mul T (Fin 65536)) encCount))"

definition AccelerationToCounts :: "KDC101 \<Rightarrow> f64 \<Rightarrow> u32" where
  "AccelerationToCounts k acceleration =
     (let encCount = map_index StageScalingFactor (StageType k);
          T = map_index MotorTFactor (MotorType k)
      in f64_to_uint32
           (f64_mul (f64_mul (f64_mul acceleration (f64_mul T T)) (Fin 65536)) encCount))"

text \<open>The count is an \<open>int32\<close> here: the word is read with \<open>sint\<close>.\<close>

definition CountsToAcceleration :: "KDC101 \<Rightarrow> u32 \<Rightarrow> f64" where
  "CountsToAcceleration k counts =
     (let encCount = map_index StageScalingFactor (StageType k);
          T = map_index MotorTFactor (MotorType k)
      in f64_div (f64_of_int (sint counts))
           (f64_mul (f64_mul (f64_mul T T) (Fin 65536)) encCount))"

section \<open>The constructor (thorlabskdc101.go)\<close>

definition Brushed :: string where "Brushed = ''Brushed''"
definition Brushless :: string where "Brushless = ''Brushless''"
definition MTS25Z8 :: string where "MTS25Z8 = ''MTS25-Z8''"
definition MTS50Z8 :: string where "MTS50Z8 = ''MTS50-Z8''"
definition Z8xx :: string where "Z8xx = ''Z8xx''"
definition Z6xx :: string where "Z6xx = ''Z6xx''"
definition PRM1Z8 :: string where "PRM1Z8 = ''PRM1-Z8''"
definition PRMTZ8 :: string where "PRMTZ8 = ''PRMTZ8''"
definition CR1Z7 :: string where "CR1Z7 = ''CR1-Z7''"
definition KVS30 :: string where "KVS30 = ''KVS30''"

text \<open>
  \<open>New\<close> stores the two labels and the transport that \<open>unicomm.New(options)\<close> builds
  (the third argument here). It has no error result and looks nothing up.
\<close>

definition New :: "string \<Rightarrow> string \<Rightarrow> unicomm \<Rightarrow> KDC101" where
  "New stage motor comm = \<lparr>Communication = comm, StageType = stage, MotorType = motor\<rparr>"

section \<open>The command catalog\<close>

type_synonym Direction = u8
type_synonym StopMode = u8

definition Forward :: Direction where "Forward = 0x01"
definition Reverse :: Direction where "Reverse = 0x02"
definition Abrupt :: StopMode where "Abrupt = 0x01"
definition Soft :: StopMode where "Soft = 0x02"

record VelocityProfile =
  MinVelocity :: f64
  MaxVelocity :: f64
  Acceleration :: f64

record JogParameters =
  Mode :: u16
  StepSize :: f64
  MinVelocity :: f64
  Acceleration :: f64
  MaxVelocity :: f64
  StopMode :: u16

text \<open>The status structures. The signed fields \<open>Position\<close> and \<open>Current\<close> are words read with \<open>sint\<close>.\<close>

record DCStatusUpdate =
  Channel :: u16
  Position :: u32
  Velocity :: u16
  Current :: u16
  StatusBits :: u32

record DCStatusBits =
  CWHardLimit :: bool
  CCWHardLimit :: bool
  CWSoftLimit :: bool
  CCWSoftLimit :: bool
  InMotionCW :: bool
  InMotionCCW :: bool
  JoggingCW :: bool
  JoggingCCW :: bool
  IsConnected :: bool
  IsHoming :: bool
  IsHomed :: bool
  IsInitializing :: bool
  IsTracking :: bool
  IsSettled :: bool
  PositionError :: bool
  InstructionError :: bool
  Interlock :: bool
  OverTemperature :: bool
  BusVoltageFault :: bool
  CommutationError :: bool
  Overload :: bool
  EncoderFault :: bool
  OverCurrent :: bool
  BusCurrentFault :: bool
  PowerOk :: bool
  IsActive :: bool
  Error :: bool
  IsEnabled :: bool

record DCStatusUpdateSI =
  Channel :: u16
  Position :: f64
  Velocity :: f64
  Current :: f64
  StatusBits :: DCStatusBits

text \<open>
  The expression \<open>byte(1 << (channel - 1))\<close>: the constant 1 takes the type \<open>byte\<close>, the
  shift count is the \<open>uint8\<close> difference.
\<close>

definition channel_mask :: "u8 \<Rightarrow> u8" where
  "channel_mask channel = push_bit (unat (channel - 1)) 1"

text \<open>
  A message literal of the source that leaves \<open>Parameter2\<close> out has it zero. The payload
  of the position commands: the channel mask, a zero byte, the count.
\<close>

definition header_msg :: "u16 \<Rightarrow> u8 \<Rightarrow> u8 \<Rightarrow> HeaderMessage" where
  "header_msg ident p1 p2 =
     \<lparr>HeaderMessage.ID = ident, Parameter1 = p1, Parameter2 = p2,
      HeaderMessage.Destination = GenericUnit, HeaderMessage.Source = Host\<rparr>"

definition data_msg :: "u16 \<Rightarrow> u8 list \<Rightarrow> DataMessage" where
  "data_msg ident data =
     \<lparr>DataMessage.ID = ident, DataLength = of_nat (length data),
      DataMessage.Destination = GenericUnit, DataMessage.Source = Host, Data = data\<rparr>"

subsection \<open>Identification and moves\<close>

definition Identify :: "KDC101 \<Rightarrow> u8 \<Rightarrow> error option \<times> KDC101" where
  "Identify k channel =
     (if channel \<noteq> 1 then (Some ErrChannelNotSupported, k)
      else WriteHeaderOnly k (header_msg 0x0223 (channel_mask channel) 0x00))"

definition StartHomeMove :: "KDC101 \<Rightarrow> u8 \<Rightarrow> error option \<times> KDC101" where
  "StartHomeMove k channel =
     (if channel \<noteq> 1 then (Some ErrChannelNotSupported, k)
      else WriteHeaderOnly k (header_msg 0x0443 (channel_mask channel) 0x00))"

definition StartRelativeMove :: "KDC101 \<Rightarrow> u8 \<Rightarrow> error option \<times> KDC101" where
  "StartRelativeMove k channel =
     (if channel \<noteq> 1 then (Some ErrChannelNotSupported, k)
      else WriteHeaderOnly k (header_msg 0x0448 (channel_mask channel) 0x00))"

definition MoveRelativeDistance :: "KDC101 \<Rightarrow> u8 \<Rightarrow> f64 \<Rightarrow> error option \<times> KDC101" where
  "MoveRelativeDistance k channel distance =
     (if channel \<noteq> 1 then (Some ErrChannelNotSupported, k)
      else let counts = PositionToCounts k distance;
               data = [channel_mask channel, 0x00] @ LongToBytes counts
           in WriteData k (data_msg 0x0448 data))"

definition StartAbsoluteMove :: "KDC101 \<Rightarrow> u8 \<Rightarrow> error option \<times> KDC101" where
  "StartAbsoluteMove k channel =
     (if channel \<noteq> 1 then (Some ErrChannelNotSupported, k)
      else WriteHeaderOnly k (header_msg 0x0453 (channel_mask channel) 0x00))"

definition MoveAbsolutePosition :: "KDC101 \<Rightarrow> u8 \<Rightarrow> f64 \<Rightarrow> error option \<times> KDC101" where
  "MoveAbsolutePosition k channel position =
     (if channel \<noteq> 1 then (Some ErrChannelNotSupported, k)
      else let counts = PositionToCounts k position;
               data = [channel_mask channel, 0x00] @ LongToBytes counts
           in WriteData k (data_msg 0x0453 data))"

definition StartJogMove :: "KDC101 \<Rightarrow> u8 \<Rightarrow> Direction \<Rightarrow> error option \<times> KDC101" where
  "StartJogMove k channel direction =
     (if channel \<noteq> 1 then (Some ErrChannelNotSupported, k)
      else WriteHeaderOnly k (header_msg 0x046A (channel_mask channel) direction))"

definition MoveContinuous :: "KDC101 \<Rightarrow> u8 \<Rightarrow> Direction \<Rightarrow> error option \<times> KDC101" where
  "MoveContinuous k channel direction =
     (if channel \<noteq> 1 then (Some ErrChannelNotSupported, k)
      else WriteHeaderOnly k (header_msg 0x0457 (channel_mask channel) direction))"

definition Stop :: "KDC101 \<Rightarrow> u8 \<Rightarrow> StopMode \<Rightarrow> error option \<times> KDC101" where
  "Stop k channel mode =
     (if channel \<noteq> 1 then (Some ErrChannelNotSupported, k)
      else WriteHeaderOnly k (header_msg 0x0465 (channel_mask channel) mode))"

subsection \<open>Enabling and motion parameters\<close>

definition Enable :: "KDC101 \<Rightarrow> u8 \<Rightarrow> bool \<Rightarrow> error option \<times> KDC101" where
  "Enable k channel enable =
     (if channel \<noteq> 1 then (Some ErrChannelNotSupported, k)
      else WriteHeaderOnly k
             (header_msg 0x0224 (channel_mask channel) (if enable then 0x01 else 0x02)))"

definition IsEnabled :: "KDC101 \<Rightarrow> u8 \<Rightarrow> (error + bool) \<times> KDC101" where
  "IsEnabled k channel =
     (if channel \<noteq> 1 then (Inl ErrChannelNotSupported, k)
      else case RequestHeaderOnly k (header_msg 0x0211 (channel_mask channel) 0x00) of
             (Inl err, k') \<Rightarrow> (Inl err, k')
           | (Inr response, k') \<Rightarrow> (Inr (Parameter2 response = 0x01), k'))"

definition SetTrapezoidalVelocity ::
  "KDC101 \<Rightarrow> u8 \<Rightarrow> VelocityProfile \<Rightarrow> error option \<times> KDC101" where
  "SetTrapezoidalVelocity k channel profile =
     (if channel \<noteq> 1 then (Some ErrChannelNotSupported, k)
      else let minVel = VelocityToCounts k (VelocityProfile.MinVelocity profile);
               accel = AccelerationToCounts k (VelocityProfile.Acceleration profile);
               maxVel = VelocityToCounts k (VelocityProfile.MaxVelocity profile);
               data = [channel_mask channel, 0x00] @ DwordToBytes minVel
                      @ DwordToBytes accel @ DwordToBytes maxVel
           in WriteData k (data_msg 0x0413 data))"

definition GetTrapezoidalVelocity :: "KDC101 \<Rightarrow> u8 \<Rightarrow> (error + VelocityProfile) \<times> KDC101" where
  "GetTrapezoidalVelocity k channel =
     (if channel \<noteq> 1 then (Inl ErrChannelNotSupported, k)
      else case RequestData k (header_msg 0x0414 (channel_mask channel) 0x00) of
             (Inl err, k') \<Rightarrow> (Inl err, k')
           | (Inr response, k') \<Rightarrow>
               (let data = Data response; spare = spare_capacity (Communication k')
                in if length data < 14 then (Inl ErrInvalidResponseLength, k')
                   else (and_then (and_then (slice spare data 2 6) BytesToDword) (\<lambda>minVel.
                         and_then (and_then (slice spare data 6 10) BytesToLong) (\<lambda>accel.
                         and_then (and_then (slice spare data 10 14) BytesToDword) (\<lambda>maxVel.
                         Inr \<lparr>VelocityProfile.MinVelocity = CountsToVelocity k minVel,
                              VelocityProfile.MaxVelocity = CountsToVelocity k maxVel,
                              VelocityProfile.Acceleration = CountsToAcceleration k accel\<rparr>))),
                         k')))"

definition SetJogParameters :: "KDC101 \<Rightarrow> u8 \<Rightarrow> JogParameters \<Rightarrow> error option \<times> KDC101" where
  "SetJogParameters k channel params =
     (if channel \<noteq> 1 then (Some ErrChannelNotSupported, k)
      else let stepSize = PositionToCounts k (StepSize params);
               minVel = VelocityToCounts k (JogParameters.MinVelocity params);
               accel = AccelerationToCounts k (JogParameters.Acceleration params);
               maxVel = VelocityToCounts k (JogParameters.MaxVelocity params);
               data = [channel_mask channel, 0x00] @ WordToBytes (Mode params)
                      @ LongToBytes stepSize @ DwordToBytes minVel @ DwordToBytes accel
                      @ DwordToBytes maxVel @ WordToBytes (StopMode params)
           in WriteData k (data_msg 0x0416 data))"

definition GetJogParameters :: "KDC101 \<Rightarrow> u8 \<Rightarrow> (error + JogParameters) \<times> KDC101" where
  "GetJogParameters k channel =
     (if channel \<noteq> 1 then (Inl ErrChannelNotSupported, k)
      else case RequestData k (header_msg 0x0417 (channel_mask channel) 0x00) of
             (Inl err, k') \<Rightarrow> (Inl err, k')
           | (Inr response, k') \<Rightarrow>
               (let data = Data response; spare = spare_capacity (Communication k')
                in if length data < 22 then (Inl ErrInvalidResponseLength, k')
                   else (and_then (and_then (slice spare data 2 4) BytesToWord) (\<lambda>mode.
                         and_then (and_then (slice spare data 4 8) BytesToLong) (\<lambda>stepSize.
                         and_then (and_then (slice spare data 8 12) BytesToDword) (\<lambda>minVel.
                         and_then (and_then (slice spare data 12 16) BytesToLong) (\<lambda>accel.
                         and_then (and_then (slice spare data 16 20) BytesToDword) (\<lambda>maxVel.
                         and_then (and_then (slice spare data 20 22) BytesToWord) (\<lambda>stopMode.
                         Inr \<lparr>Mode = mode,
                              StepSize = CountsToPosition k stepSize,
                              JogParameters.MinVelocity = CountsToVelocity k minVel,
                              JogParameters.Acceleration = CountsToAcceleration k accel,
                              JogParameters.MaxVelocity = CountsToVelocity k maxVel,
                              StopMode = stopMode\<rparr>)))))),
                         k')))"

definition SetRelativeMoveDistance :: "KDC101 \<Rightarrow> u8 \<Rightarrow> f64 \<Rightarrow> error option \<times> KDC101" where
  "SetRelativeMoveDistance k channel distance =
     (if channel \<noteq> 1 then (Some ErrChannelNotSupported, k)
      else let counts = PositionToCounts k distance;
               data = [channel_mask channel, 0x00] @ LongToBytes counts
           in WriteData k (data_msg 0x0445 data))"

definition GetRelativeMoveDistance :: "KDC101 \<Rightarrow> u8 \<Rightarrow> (error + f64) \<times> KDC101" where
  "GetRelativeMoveDistance k channel =
     (if channel \<noteq> 1 then (Inl ErrChannelNotSupported, k)
      else case RequestData k (header_msg 0x0446 (channel_mask channel) 0x00) of
             (Inl err, k') \<Rightarrow> (Inl err, k')
           | (Inr response, k') \<Rightarrow>
               (let data = Data response; spare = spare_capacity (Communication k')
                in if length data < 6 then (Inl ErrInvalidResponseLength, k')
                   else (and_then (and_then (slice spare data 2 6) BytesToLong) (\<lambda>counts.
                         Inr (CountsToPosition k counts)),
                         k')))"

definition SetAbsoluteMoveDistance :: "KDC101 \<Rightarrow> u8 \<Rightarrow> f64 \<Rightarrow> error option \<times> KDC101" where
  "SetAbsoluteMoveDistance k channel position =
     (if channel \<noteq> 1 then (Some ErrChannelNotSupported, k)
      else let counts = PositionToCounts k position;
               data = [channel_mask channel, 0x00] @ LongToBytes counts
           in WriteData k (data_msg 0x0450 data))"

definition GetAbsoluteMoveDistance :: "KDC101 \<Rightarrow> u8 \<Rightarrow> (error + f64) \<times> KDC101" where
  "GetAbsoluteMoveDistance k channel =
     (if channel \<noteq> 1 then (Inl ErrChannelNotSupported, k)
      else case RequestData k (header_msg 0x0451 (channel_mask channel) 0x00) of
             (Inl err, k') \<Rightarrow> (Inl err, k')
           | (Inr response, k') \<Rightarrow>
               (let data = Data response; spare = spare_capacity (Communication k')
                in if length data < 6 then (Inl ErrInvalidResponseLength, k')
                   else (and_then (and_then (slice spare data 2 6) BytesToLong) (\<lambda>counts.
                         Inr (CountsToPosition k counts)),
                         k')))"

subsection \<open>Status updates\<close>

text \<open>
  \<open>GetDCStatusUpdate\<close> slices the payload with no check of its length; the fields of the
  struct literal are evaluated in the order written, so the first slice expression
  beyond the capacity is the panic. The payload is the slice that the last read
  returned, with the spare capacity the transport gave it.
\<close>

definition GetDCStatusUpdate :: "KDC101 \<Rightarrow> u8 \<Rightarrow> (error + DCStatusUpdate) \<times> KDC101" where
  "GetDCStatusUpdate k channel =
     (if channel \<noteq> 1 then (Inl ErrChannelNotSupported, k)
      else case RequestData k (header_msg 0x0490 (channel_mask channel) 0x00) of
             (Inl err, k') \<Rightarrow> (Inl err, k')
           | (Inr response, k') \<Rightarrow>
               (let data = Data response; spare = spare_capacity (Communication k')
                in (and_then (and_then (slice spare data 0 2) BytesToWord) (\<lambda>chan.
                    and_then (and_then (slice spare data 2 6) BytesToLong) (\<lambda>pos.
                    and_then (and_then (slice spare data 6 8) BytesToWord) (\<lambda>vel.
                    and_then (and_then (slice spare data 8 10) BytesToShort) (\<lambda>cur.
                    and_then (and_then (slice spare data 10 14) BytesToDword) (\<lambda>bits.
                    Inr \<lparr>DCStatusUpdate.Channel = chan,
                         DCStatusUpdate.Position = pos,
                         DCStatusUpdate.Velocity = vel,
                         DCStatusUpdate.Current = cur,
                         DCStatusUpdate.StatusBits = bits\<rparr>))))),
                    k')))"

definition ParseDCStatusBits :: "KDC101 \<Rightarrow> u32 \<Rightarrow> DCStatusBits" where
  "ParseDCStatusBits k statusBits =
     \<lparr>CWHardLimit = (statusBits AND 0x00000001 \<noteq> 0),
      CCWHardLimit = (statusBits AND 0x00000002 \<noteq> 0),
      CWSoftLimit = (statusBits AND 0x00000004 \<noteq> 0),
      CCWSoftLimit = (statusBits AND 0x00000008 \<noteq> 0),
      InMotionCW = (statusBits AND 0x00000010 \<noteq> 0),
      InMotionCCW = (statusBits AND 0x00000020 \<noteq> 0),
      JoggingCW = (statusBits AND 0x00000040 \<noteq> 0),
      JoggingCCW = (statusBits AND 0x00000080 \<noteq> 0),
      IsConnected = (statusBits AND 0x00000100 \<noteq> 0),
      IsHoming = (statusBits AND 0x00000200 \<noteq> 0),
      IsHomed = (statusBits AND 0x00000400 \<noteq> 0),
      IsInitializing = (statusBits AND 0x00000800 \<noteq> 0),
      IsTracking = (statusBits AND 0x00001000 \<noteq> 0),
      IsSettled = (statusBits AND 0x00002000 \<noteq> 0),
      PositionError = (statusBits AND 0x00004000 \<noteq> 0),
      InstructionError = (statusBits AND 0x00008000 \<noteq> 0),
      Interlock = (statusBits AND 0x00010000 \<noteq> 0),
      OverTemperature = (statusBits AND 0x00020000 \<noteq> 0),
      BusVoltageFault = (statusBits AND 0x00040000 \<noteq> 0),
      CommutationError = (statusBits AND 0x00080000 \<noteq> 0),
      Overload = (statusBits AND 0x01000000 \<noteq> 0),
      EncoderFault = (statusBits AND 0x02000000 \<noteq> 0),
      OverCurrent = (statusBits AND 0x04000000 \<noteq> 0),
      BusCurrentFault = (statusBits AND 0x08000000 \<noteq> 0),
      PowerOk = (statusBits AND 0x10000000 \<noteq> 0),
      IsActive = (statusBits AND 0x20000000 \<noteq> 0),
      Error = (statusBits AND 0x40000000 \<noteq> 0),
      DCStatusBits.IsEnabled = (statusBits AND 0x80000000 \<noteq> 0)\<rparr>"

definition DCStatusUpdateToSI :: "KDC101 \<Rightarrow> DCStatusUpdate \<Rightarrow> DCStatusUpdateSI" where
  "DCStatusUpdateToSI k update =
     \<lparr>DCStatusUpdateSI.Channel = DCStatusUpdate.Channel update,
      DCStatusUpdateSI.Position = CountsToPosition k (DCStatusUpdate.Position update),
      DCStatusUpdateSI.Velocity = CountsToVelocity k (ucast (DCStatusUpdate.Velocity update)),
      DCStatusUpdateSI.Current = f64_of_int (sint (DCStatusUpdate.Current update)),
      DCStatusUpdateSI.StatusBits = ParseDCStatusBits k (DCStatusUpdate.StatusBits update)\<rparr>"

text \<open>The flags of a \<open>DCStatusBits\<close>, in the order of the struct.\<close>

definition flags :: "DCStatusBits \<Rightarrow> bool list" where
  "flags s =
     [CWHardLimit s, CCWHardLimit s, CWSoftLimit s, CCWSoftLimit s, InMotionCW s,
      InMotionCCW s, JoggingCW s, JoggingCCW s, IsConnected s, IsHoming s, IsHomed s,
      IsInitializing s, IsTracking s, IsSettled s, PositionError s, InstructionError s,
      Interlock s, OverTemperature s, BusVoltageFault s, CommutationError s, Overload s,
      EncoderFault s, OverCurrent s, BusCurrentFault s, PowerOk s, IsActive s, Error s,
      DCStatusBits.IsEnabled s]"

section \<open>Fixtures\<close>

text \<open>
  A working link on which the device has sent the given bytes, nothing read yet, on a
  transport that returns slices with no spare capacity.
\<close>

definition device_reply :: "u8 list \<Rightarrow> unicomm" where
  "device_reply bytes =
     \<lparr>link_up = True, pending = bytes, trace = [], spare_capacity = []\<rparr>"

text \<open>The same on a transport that returns its slices with the given elements behind them.\<close>

definition device_reply_spare :: "u8 list \<Rightarrow> u8 list \<Rightarrow> unicomm" where
  "device_reply_spare bytes spare =
     \<lparr>link_up = True, pending = bytes, trace = [], spare_capacity = spare\<rparr>"

text \<open>
  A reply to the status request: the header of a data message with command id 0x0491 and
  length 14, then channel 0x0001, position 0x00054F2E, velocity 0x0032, current 0xFFF6
  and status bits 0x80000401, each little-endian.
\<close>

definition status_reply :: "u8 list" where
  "status_reply =
     [0x91, 0x04, 0x0E, 0x00, 0x81, 0x50,
      0x01, 0x00, 0x2E, 0x4F, 0x05, 0x00, 0x32, 0x00, 0xF6, 0xFF, 0x01, 0x04, 0x00, 0x80]"

section \<open>Framing: properties\<close>

lemma and_255_take_bit: "(x :: 'a::len word) AND 0x00FF = take_bit 8 x"
  by (simp add: take_bit_eq_mask mask_eq_exp_minus_1)

lemma u16_bytes_join:
  "push_bit 8 (ucast (ucast (drop_bit 8 x) :: u8)) OR ucast (ucast (x AND 0x00FF) :: u8) = (x :: u16)"
  unfolding and_255_take_bit
  by (rule bit_eqI) (auto simp add: bit_simps)

lemma word_ge_1_iff: "(1 \<le> (x :: 'a::len word)) = (x \<noteq> 0)"
  by (auto simp add: word_le_nat_alt Suc_le_eq unat_gt_0)

lemma ReadData_data_bytes:
  assumes "link_up c" and "pending c = data_bytes m @ rest"
    and "1 \<le> DataLength m" and "unat (DataLength m) = length (Data m)"
  shows "ReadData (k\<lparr>Communication := c\<rparr>) =
           (Inr (m\<lparr>DataMessage.Destination := DataMessage.Destination m OR 0x80\<rparr>),
            k\<lparr>Communication := c\<lparr>pending := rest,
                                   trace := trace c @ [IoRead 6, IoRead (length (Data m))]\<rparr>\<rparr>)"
  using assms
  by (simp add: ReadData_def comm_Read_def data_bytes_def Let_def u16_bytes_join not_less word_ge_1_iff)

text \<open>
  C1 (as amended). For every data message whose \<open>DataLength\<close> is at least 1 and is the
  length of its payload: \<open>WriteData\<close> hands the transport one frame, the six header bytes
  with the 0x80 bit set in the destination byte, then the payload as it is; and
  \<open>ReadData\<close> on those bytes gives back the message with its command id, length,
  source and payload, and with the destination as it travelled, the 0x80 bit still set.
\<close>

theorem data_message_round_trip:
  assumes "1 \<le> DataLength m" and "unat (DataLength m) = length (Data m)"
    and "link_up (Communication r)" and "pending (Communication r) = data_bytes m"
  shows "trace (Communication (snd (WriteData k m))) =
           trace (Communication k) @ [IoWrite (data_bytes m)]
       \<and> data_bytes m ! 4 = DataMessage.Destination m OR 0x80
       \<and> drop 6 (data_bytes m) = Data m
       \<and> fst (ReadData r) =
           Inr (m\<lparr>DataMessage.Destination := DataMessage.Destination m OR 0x80\<rparr>)"
proof -
  have w: "trace (Communication (snd (WriteData k m))) =
             trace (Communication k) @ [IoWrite (data_bytes m)]"
    by (simp add: WriteData_def comm_Write_def Let_def)
  have b: "data_bytes m ! 4 = DataMessage.Destination m OR 0x80" "drop 6 (data_bytes m) = Data m"
    by (simp_all add: data_bytes_def)
  have "ReadData (r\<lparr>Communication := Communication r\<rparr>) =
          (Inr (m\<lparr>DataMessage.Destination := DataMessage.Destination m OR 0x80\<rparr>),
           r\<lparr>Communication := (Communication r)\<lparr>pending := [],
               trace := trace (Communication r) @ [IoRead 6, IoRead (length (Data m))]\<rparr>\<rparr>)"
    using assms by (intro ReadData_data_bytes) simp_all
  then have "fst (ReadData r) =
      Inr (m\<lparr>DataMessage.Destination := DataMessage.Destination m OR 0x80\<rparr>)"
    by simp
  with w b show ?thesis by simp
qed

text \<open>The round trip at the frame of a two-byte payload sent to the generic unit.\<close>

theorem data_message_round_trip_witness:
  "(1::u16) \<le> 2 \<and> unat (2::u16) = length [0x01, 0x00 :: u8]
   \<and> fst (ReadData (New MTS25Z8 Brushed (device_reply
         (data_bytes \<lparr>DataMessage.ID = 0x0453, DataLength = 2, DataMessage.Destination = 0x50,
                      DataMessage.Source = 0x01, Data = [0x01, 0x00]\<rparr>)))) =
       Inr \<lparr>DataMessage.ID = 0x0453, DataLength = 2, DataMessage.Destination = 0xD0,
            DataMessage.Source = 0x01, Data = [0x01, 0x00]\<rparr>"
  using data_message_round_trip
    [of "\<lparr>DataMessage.ID = 0x0453, DataLength = 2, DataMessage.Destination = 0x50,
          DataMessage.Source = 0x01, Data = [0x01, 0x00]\<rparr>"
        "New MTS25Z8 Brushed (device_reply
         (data_bytes \<lparr>DataMessage.ID = 0x0453, DataLength = 2, DataMessage.Destination = 0x50,
                      DataMessage.Source = 0x01, Data = [0x01, 0x00]\<rparr>))"]
  by (simp add: New_def device_reply_def)

text \<open>
  C1 as stated fails: the message read back from the frame of a message with destination
  0x50 is not that message, its destination is 0xD0. The second frame declares a length
  of 1 for a payload of two bytes: one byte comes back.
\<close>

theorem data_message_round_trip_counterexample:
  "(1::u16) \<le> 2 \<and> (0x50::u8) < 0x80
   \<and> fst (ReadData (New MTS25Z8 Brushed (device_reply
         (data_bytes \<lparr>DataMessage.ID = 0x0453, DataLength = 2, DataMessage.Destination = 0x50,
                      DataMessage.Source = 0x01, Data = [0x01, 0x00]\<rparr>)))) \<noteq>
       Inr \<lparr>DataMessage.ID = 0x0453, DataLength = 2, DataMessage.Destination = 0x50,
            DataMessage.Source = 0x01, Data = [0x01, 0x00]\<rparr>
   \<and> fst (ReadData (New MTS25Z8 Brushed (device_reply
         (data_bytes \<lparr>DataMessage.ID = 0x0453, DataLength = 1, DataMessage.Destination = 0x50,
                      DataMessage.Source = 0x01, Data = [0x01, 0x00]\<rparr>)))) =
       Inr \<lparr>DataMessage.ID = 0x0453, DataLength = 1, DataMessage.Destination = 0xD0,
            DataMessage.Source = 0x01, Data = [0x01]\<rparr>"
  by (simp add: ReadData_def comm_Read_def data_bytes_def New_def device_reply_def Let_def)

text \<open>
  C6. When the header that \<open>ReadData\<close> reads declares a payload length of 0, the result is
  the invalid-data-length error, and the transport has seen one call, the read of the
  six header bytes: no second read.
\<close>

theorem ReadData_zero_length:
  assumes "link_up (Communication k)" and "6 \<le> length (pending (Communication k))"
    and "pending (Communication k) ! 2 = 0" and "pending (Communication k) ! 3 = 0"
  shows "ReadData k =
           (Inl (ErrInvalidDataLength 0),
            k\<lparr>Communication := (Communication k)
                 \<lparr>pending := drop 6 (pending (Communication k)),
                  trace := trace (Communication k) @ [IoRead 6]\<rparr>\<rparr>)"
  using assms by (simp add: ReadData_def comm_Read_def Let_def)

text \<open>A reply header with length 0, followed by a byte that stays unread.\<close>

theorem ReadData_zero_length_witness:
  "link_up (device_reply [0x91, 0x04, 0x00, 0x00, 0x81, 0x50, 0x07])
   \<and> 6 \<le> length [0x91, 0x04, 0x00, 0x00, 0x81, 0x50, 0x07 :: u8]
   \<and> [0x91, 0x04, 0x00, 0x00, 0x81, 0x50, 0x07 :: u8] ! 2 = 0
   \<and> [0x91, 0x04, 0x00, 0x00, 0x81, 0x50, 0x07 :: u8] ! 3 = 0
   \<and> ReadData (New MTS25Z8 Brushed (device_reply [0x91, 0x04, 0x00, 0x00, 0x81, 0x50, 0x07])) =
       (Inl (ErrInvalidDataLength 0),
        New MTS25Z8 Brushed
          \<lparr>link_up = True, pending = [0x07], trace = [IoRead 6], spare_capacity = []\<rparr>)"
  using ReadData_zero_length
    [of "New MTS25Z8 Brushed (device_reply [0x91, 0x04, 0x00, 0x00, 0x81, 0x50, 0x07])"]
  by (simp add: New_def device_reply_def)

section \<open>The channel check\<close>

text \<open>
  C2. For every channel other than 1, each of the twenty operations that take a channel
  returns the channel-not-supported error, and returns the controller as it was given:
  its transport, and so the trace of calls made on it, is untouched.
\<close>

theorem channel_not_supported:
  assumes "channel \<noteq> 1"
  shows "Identify k channel = (Some ErrChannelNotSupported, k)
       \<and> Enable k channel enable = (Some ErrChannelNotSupported, k)
       \<and> IsEnabled k channel = (Inl ErrChannelNotSupported, k)
       \<and> StartHomeMove k channel = (Some ErrChannelNotSupported, k)
       \<and> StartRelativeMove k channel = (Some ErrChannelNotSupported, k)
       \<and> MoveRelativeDistance k channel distance = (Some ErrChannelNotSupported, k)
       \<and> StartAbsoluteMove k channel = (Some ErrChannelNotSupported, k)
       \<and> MoveAbsolutePosition k channel position = (Some ErrChannelNotSupported, k)
       \<and> StartJogMove k channel direction = (Some ErrChannelNotSupported, k)
       \<and> MoveContinuous k channel direction = (Some ErrChannelNotSupported, k)
       \<and> Stop k channel mode = (Some ErrChannelNotSupported, k)
       \<and> SetTrapezoidalVelocity k channel profile = (Some ErrChannelNotSupported, k)
       \<and> GetTrapezoidalVelocity k channel = (Inl ErrChannelNotSupported, k)
       \<and> SetJogParameters k channel params = (Some ErrChannelNotSupported, k)
       \<and> GetJogParameters k channel = (Inl ErrChannelNotSupported, k)
       \<and> SetRelativeMoveDistance k channel distance = (Some ErrChannelNotSupported, k)
       \<and> GetRelativeMoveDistance k channel = (Inl ErrChannelNotSupported, k)
       \<and> SetAbsoluteMoveDistance k channel position = (Some ErrChannelNotSupported, k)
       \<and> GetAbsoluteMoveDistance k channel = (Inl ErrChannelNotSupported, k)
       \<and> GetDCStatusUpdate k channel = (Inl ErrChannelNotSupported, k)"
  using assms
  by (simp add: Identify_def Enable_def IsEnabled_def StartHomeMove_def StartRelativeMove_def
      MoveRelativeDistance_def StartAbsoluteMove_def MoveAbsolutePosition_def StartJogMove_def
      MoveContinuous_def Stop_def SetTrapezoidalVelocity_def GetTrapezoidalVelocity_def
      SetJogParameters_def GetJogParameters_def SetRelativeMoveDistance_def
      GetRelativeMoveDistance_def SetAbsoluteMoveDistance_def GetAbsoluteMoveDistance_def
      GetDCStatusUpdate_def)

text \<open>Channel 2 on a fresh controller.\<close>

theorem channel_not_supported_witness:
  "(2::u8) \<noteq> 1
   \<and> Enable (New MTS25Z8 Brushed (device_reply [])) 2 True =
       (Some ErrChannelNotSupported, New MTS25Z8 Brushed (device_reply []))
   \<and> GetDCStatusUpdate (New MTS25Z8 Brushed (device_reply [])) 2 =
       (Inl ErrChannelNotSupported, New MTS25Z8 Brushed (device_reply []))
   \<and> MoveAbsolutePosition (New MTS25Z8 Brushed (device_reply [])) 2 (Fin 10) =
       (Some ErrChannelNotSupported, New MTS25Z8 Brushed (device_reply []))
   \<and> trace (Communication (snd (MoveAbsolutePosition (New MTS25Z8 Brushed (device_reply [])) 2 (Fin 10)))) = []"
  using channel_not_supported [of 2 "New MTS25Z8 Brushed (device_reply [])" True
      "Fin 10" "Fin 10"]
  by (simp add: New_def device_reply_def)

section \<open>Status: properties\<close>

lemma reserved_bits_masked:
  fixes s r m n :: u32
  assumes "m AND n = 0"
  shows "(s XOR (r AND m)) AND n = s AND n"
proof (rule bit_eqI)
  fix i
  from assms have "\<not> (bit m i \<and> bit n i)"
    by (metis bit_and_iff bit_0_eq bot_apply bot_bool_def)
  then show "bit ((s XOR (r AND m)) AND n) i = bit (s AND n) i"
    by (auto simp add: bit_and_iff bit_xor_iff)
qed

lemma replicate_numeral_Cons:
  "replicate (numeral n) x = x # replicate (pred_numeral n) x"
  by (simp add: numeral_eq_Suc)

text \<open>
  C7 (as amended). \<open>ParseDCStatusBits\<close> is a function of every 32-bit word, with no
  error result. On 0xFFFFFFFF each of the 28 flags of the struct is true, on 0 each is
  false, and flipping any of the reserved bits 20 to 23 of any word changes no flag.
\<close>

theorem status_decoder_reserved_bits:
  "flags (ParseDCStatusBits k 0xFFFFFFFF) = replicate 28 True
   \<and> flags (ParseDCStatusBits k 0x00000000) = replicate 28 False
   \<and> ParseDCStatusBits k (statusBits XOR (r AND 0x00F00000)) = ParseDCStatusBits k statusBits"
proof -
  have a: "flags (ParseDCStatusBits k 0xFFFFFFFF) = replicate 28 True"
    by (simp add: flags_def ParseDCStatusBits_def replicate_numeral_Cons)
  have b: "flags (ParseDCStatusBits k 0x00000000) = replicate 28 False"
    by (simp add: flags_def ParseDCStatusBits_def replicate_numeral_Cons)
  have c: "ParseDCStatusBits k (statusBits XOR (r AND 0x00F00000)) = ParseDCStatusBits k statusBits"
    unfolding ParseDCStatusBits_def by (simp add: reserved_bits_masked)
  from a b c show ?thesis by simp
qed

text \<open>C7 as stated counts 27 flags: the struct has 28.\<close>

theorem status_decoder_flag_count_counterexample:
  "length (flags (ParseDCStatusBits (New MTS25Z8 Brushed (device_reply [])) 0xFFFFFFFF)) \<noteq> 27"
  by (simp add: flags_def)

lemma GetDCStatusUpdate_status_reply:
  "fst (GetDCStatusUpdate (New MTS25Z8 Brushed (device_reply status_reply)) 1) =
     Inr \<lparr>DCStatusUpdate.Channel = 0x0001, DCStatusUpdate.Position = 0x00054F2E,
          DCStatusUpdate.Velocity = 0x0032, DCStatusUpdate.Current = 0xFFF6,
          DCStatusUpdate.StatusBits = 0x80000401\<rparr>"
  by (simp add: GetDCStatusUpdate_def RequestData_def WriteHeaderOnly_def ReadData_def
      comm_Write_def comm_Read_def New_def device_reply_def status_reply_def Let_def
      and_then_def slice_def BytesToWord_def BytesToLong_def BytesToDword_def BytesToShort_def)

lemma ParseDCStatusBits_0x80000401:
  "ParseDCStatusBits k 0x80000401 =
     \<lparr>CWHardLimit = True, CCWHardLimit = False, CWSoftLimit = False, CCWSoftLimit = False,
      InMotionCW = False, InMotionCCW = False, JoggingCW = False, JoggingCCW = False,
      IsConnected = False, IsHoming = False, IsHomed = True, IsInitializing = False,
      IsTracking = False, IsSettled = False, PositionError = False, InstructionError = False,
      Interlock = False, OverTemperature = False, BusVoltageFault = False,
      CommutationError = False, Overload = False, EncoderFault = False, OverCurrent = False,
      BusCurrentFault = False, PowerOk = False, IsActive = False, Error = False,
      DCStatusBits.IsEnabled = True\<rparr>"
  by (simp add: ParseDCStatusBits_def)

text \<open>
  C4 (as amended). The reply with channel 0x0001, position 0x00054F2E, velocity 0x0032,
  current 0xFFF6 and status bits 0x80000401 decodes to these raw fields, and its status
  bits to \<open>CWHardLimit\<close>, \<open>IsHomed\<close> and \<open>IsEnabled\<close> true and every other flag false.
\<close>

theorem status_reply_decoded:
  "fst (GetDCStatusUpdate (New MTS25Z8 Brushed (device_reply status_reply)) 1) =
     Inr \<lparr>DCStatusUpdate.Channel = 0x0001, DCStatusUpdate.Position = 0x00054F2E,
          DCStatusUpdate.Velocity = 0x0032, DCStatusUpdate.Current = 0xFFF6,
          DCStatusUpdate.StatusBits = 0x80000401\<rparr>
   \<and> DCStatusUpdateSI.StatusBits (DCStatusUpdateToSI k
        \<lparr>DCStatusUpdate.Channel = 0x0001, DCStatusUpdate.Position = 0x00054F2E,
         DCStatusUpdate.Velocity = 0x0032, DCStatusUpdate.Current = 0xFFF6,
         DCStatusUpdate.StatusBits = 0x80000401\<rparr>) =
     \<lparr>CWHardLimit = True, CCWHardLimit = False, CWSoftLimit = False, CCWSoftLimit = False,
      InMotionCW = False, InMotionCCW = False, JoggingCW = False, JoggingCCW = False,
      IsConnected = False, IsHoming = False, IsHomed = True, IsInitializing = False,
      IsTracking = False, IsSettled = False, PositionError = False, InstructionError = False,
      Interlock = False, OverTemperature = False, BusVoltageFault = False,
      CommutationError = False, Overload = False, EncoderFault = False, OverCurrent = False,
      BusCurrentFault = False, PowerOk = False, IsActive = False, Error = False,
      DCStatusBits.IsEnabled = True\<rparr>"
  using GetDCStatusUpdate_status_reply
  by (simp add: DCStatusUpdateToSI_def ParseDCStatusBits_0x80000401)

text \<open>
  C4 as stated fails: 0x80000401 has bit 0x00000001 set, not bit 0x00000100, so
  \<open>IsConnected\<close> is false and \<open>CWHardLimit\<close> is true.
\<close>

theorem status_reply_counterexample:
  "fst (GetDCStatusUpdate (New MTS25Z8 Brushed (device_reply status_reply)) 1) =
     Inr \<lparr>DCStatusUpdate.Channel = 0x0001, DCStatusUpdate.Position = 0x00054F2E,
          DCStatusUpdate.Velocity = 0x0032, DCStatusUpdate.Current = 0xFFF6,
          DCStatusUpdate.StatusBits = 0x80000401\<rparr>
   \<and> \<not> IsConnected (ParseDCStatusBits (New MTS25Z8 Brushed (device_reply status_reply)) 0x80000401)
   \<and> CWHardLimit (ParseDCStatusBits (New MTS25Z8 Brushed (device_reply status_reply)) 0x80000401)"
  using GetDCStatusUpdate_status_reply
  by (simp add: ParseDCStatusBits_0x80000401)

lemma RequestData_data_bytes:
  assumes "link_up (Communication k)" and "pending (Communication k) = data_bytes reply"
    and "1 \<le> DataLength reply" and "unat (DataLength reply) = length (Data reply)"
  shows "fst (RequestData k msg) =
           Inr (reply\<lparr>DataMessage.Destination := DataMessage.Destination reply OR 0x80\<rparr>)"
proof -
  let ?c = "(Communication k)\<lparr>trace := trace (Communication k) @ [IoWrite (header_bytes msg)]\<rparr>"
  have w: "WriteHeaderOnly k msg = (None, k\<lparr>Communication := ?c\<rparr>)"
    using assms(1) by (simp add: WriteHeaderOnly_def comm_Write_def Let_def)
  have "link_up ?c" and "pending ?c = data_bytes reply @ []"
    using assms(1,2) by simp_all
  from ReadData_data_bytes [OF this assms(3,4)] w show ?thesis
    by (simp add: RequestData_def)
qed

lemma status_slices_panic:
  assumes "length data + length spare < 14"
  shows "and_then (and_then (slice spare data 0 2) BytesToWord) (\<lambda>chan.
         and_then (and_then (slice spare data 2 6) BytesToLong) (\<lambda>pos.
         and_then (and_then (slice spare data 6 8) BytesToWord) (\<lambda>vel.
         and_then (and_then (slice spare data 8 10) BytesToShort) (\<lambda>cur.
         and_then (and_then (slice spare data 10 14) BytesToDword) (\<lambda>bits.
           Inr (f chan pos vel cur bits)))))) = Inl PanicSliceBounds"
proof -
  define b where "b = data @ spare"
  have sl: "slice spare data lo hi =
      (if lo \<le> hi \<and> hi \<le> length b then Inr (take (hi - lo) (drop lo b))
       else Inl PanicSliceBounds)" for lo hi
    by (simp add: slice_def b_def)
  have "length b < 14"
    using assms by (simp add: b_def)
  then consider "length b < 2" | "2 \<le> length b" "length b < 6"
    | "6 \<le> length b" "length b < 8" | "8 \<le> length b" "length b < 10"
    | "10 \<le> length b" "length b < 14"
    by linarith
  then show ?thesis
    by cases (simp_all add: and_then_def sl BytesToWord_def BytesToLong_def
        BytesToDword_def BytesToShort_def)
qed

lemma status_slices_spare:
  assumes "14 \<le> length data + length spare"
  shows "\<exists>chan pos vel cur bits.
         and_then (and_then (slice spare data 0 2) BytesToWord) (\<lambda>chan.
         and_then (and_then (slice spare data 2 6) BytesToLong) (\<lambda>pos.
         and_then (and_then (slice spare data 6 8) BytesToWord) (\<lambda>vel.
         and_then (and_then (slice spare data 8 10) BytesToShort) (\<lambda>cur.
         and_then (and_then (slice spare data 10 14) BytesToDword) (\<lambda>bits.
           Inr (f chan pos vel cur bits)))))) = Inr (f chan pos vel cur bits)
       \<and> BytesToWord (take 2 (data @ spare)) = Inr chan
       \<and> BytesToLong (take 4 (drop 2 (data @ spare))) = Inr pos
       \<and> BytesToWord (take 2 (drop 6 (data @ spare))) = Inr vel
       \<and> BytesToShort (take 2 (drop 8 (data @ spare))) = Inr cur
       \<and> BytesToDword (take 4 (drop 10 (data @ spare))) = Inr bits"
proof -
  define b where "b = data @ spare"
  have sl: "slice spare data lo hi =
      (if lo \<le> hi \<and> hi \<le> length b then Inr (take (hi - lo) (drop lo b))
       else Inl PanicSliceBounds)" for lo hi
    by (simp add: slice_def b_def)
  have "14 \<le> length b"
    using assms by (simp add: b_def)
  then show ?thesis
    unfolding b_def [symmetric]
    by (simp add: and_then_def sl BytesToWord_def BytesToLong_def
        BytesToDword_def BytesToShort_def)
qed

text \<open>
  C9 (as amended). \<open>GetDCStatusUpdate\<close> has no check of the payload length and no
  invalid-response-length result. When the reply is a data message that declares, and
  carries, between 1 and 13 payload bytes, the slice expressions reach beyond the
  payload: the call panics when the capacity of the payload slice is below 14, and
  otherwise returns a status whose fields are read from the 14 elements of the backing
  array, those past the payload being whatever lies in its spare capacity.
\<close>

theorem GetDCStatusUpdate_short_payload:
  assumes "link_up (Communication k)" and "pending (Communication k) = data_bytes reply"
    and "unat (DataLength reply) = length (Data reply)"
    and "1 \<le> length (Data reply)" and "length (Data reply) \<le> 13"
  shows "fst (GetDCStatusUpdate k 1) \<noteq> Inl ErrInvalidResponseLength
       \<and> (length (Data reply) + length (spare_capacity (Communication k)) < 14
            \<longrightarrow> fst (GetDCStatusUpdate k 1) = Inl PanicSliceBounds)
       \<and> (14 \<le> length (Data reply) + length (spare_capacity (Communication k))
            \<longrightarrow> (\<exists>chan pos vel cur bits.
                  fst (GetDCStatusUpdate k 1) =
                    Inr \<lparr>DCStatusUpdate.Channel = chan, DCStatusUpdate.Position = pos,
                         DCStatusUpdate.Velocity = vel, DCStatusUpdate.Current = cur,
                         DCStatusUpdate.StatusBits = bits\<rparr>
                \<and> BytesToWord (take 2 (Data reply @ spare_capacity (Communication k))) = Inr chan
                \<and> BytesToLong (take 4 (drop 2 (Data reply @ spare_capacity (Communication k))))
                    = Inr pos
                \<and> BytesToWord (take 2 (drop 6 (Data reply @ spare_capacity (Communication k))))
                    = Inr vel
                \<and> BytesToShort (take 2 (drop 8 (Data reply @ spare_capacity (Communication k))))
                    = Inr cur
                \<and> BytesToDword (take 4 (drop 10 (Data reply @ spare_capacity (Communication k))))
                    = Inr bits))"
proof -
  let ?sp = "spare_capacity (Communication k)"
  let ?f = "\<lambda>chan pos vel cur bits.
      \<lparr>DCStatusUpdate.Channel = chan, DCStatusUpdate.Position = pos,
       DCStatusUpdate.Velocity = vel, DCStatusUpdate.Current = cur,
       DCStatusUpdate.StatusBits = bits\<rparr>"
  let ?chain = "and_then (and_then (slice ?sp (Data reply) 0 2) BytesToWord) (\<lambda>chan.
         and_then (and_then (slice ?sp (Data reply) 2 6) BytesToLong) (\<lambda>pos.
         and_then (and_then (slice ?sp (Data reply) 6 8) BytesToWord) (\<lambda>vel.
         and_then (and_then (slice ?sp (Data reply) 8 10) BytesToShort) (\<lambda>cur.
         and_then (and_then (slice ?sp (Data reply) 10 14) BytesToDword) (\<lambda>bits.
           Inr (?f chan pos vel cur bits))))))"
  have "DataLength reply \<noteq> 0"
    using assms(3,4) by auto
  then have "1 \<le> DataLength reply"
    by (simp add: word_ge_1_iff)
  from ReadData_data_bytes [of "(Communication k)\<lparr>trace := trace (Communication k) @
      [IoWrite (header_bytes (header_msg 0x0490 (channel_mask 1) 0x00))]\<rparr>" reply "[]" k]
    assms(1,2) this assms(3)
  have run: "fst (GetDCStatusUpdate k 1) = ?chain"
    by (simp add: GetDCStatusUpdate_def RequestData_def WriteHeaderOnly_def comm_Write_def
        Let_def)
  have p: "length (Data reply) + length ?sp < 14 \<Longrightarrow> ?chain = Inl PanicSliceBounds"
    by (rule status_slices_panic)
  have s: "14 \<le> length (Data reply) + length ?sp \<Longrightarrow>
      \<exists>chan pos vel cur bits. ?chain = Inr (?f chan pos vel cur bits)
       \<and> BytesToWord (take 2 (Data reply @ ?sp)) = Inr chan
       \<and> BytesToLong (take 4 (drop 2 (Data reply @ ?sp))) = Inr pos
       \<and> BytesToWord (take 2 (drop 6 (Data reply @ ?sp))) = Inr vel
       \<and> BytesToShort (take 2 (drop 8 (Data reply @ ?sp))) = Inr cur
       \<and> BytesToDword (take 4 (drop 10 (Data reply @ ?sp))) = Inr bits"
    by (rule status_slices_spare)
  have n: "?chain \<noteq> Inl ErrInvalidResponseLength"
  proof (cases "length (Data reply) + length ?sp < 14")
    case True
    from p [OF True] show ?thesis by simp
  next
    case False
    then have "14 \<le> length (Data reply) + length ?sp" by simp
    from s [OF this] show ?thesis by auto
  qed
  from n p s show ?thesis
    unfolding run by blast
qed

text \<open>A reply that declares and carries four payload bytes, in a slice of capacity four.\<close>

theorem GetDCStatusUpdate_short_payload_witness:
  "link_up (Communication (New MTS25Z8 Brushed (device_reply
       [0x91, 0x04, 0x04, 0x00, 0x81, 0x50, 0x01, 0x00, 0x2E, 0x4F])))
   \<and> [0x91, 0x04, 0x04, 0x00, 0x81, 0x50, 0x01, 0x00, 0x2E, 0x4F] =
       data_bytes \<lparr>DataMessage.ID = 0x0491, DataLength = 4, DataMessage.Destination = 0x01,
                   DataMessage.Source = 0x50, Data = [0x01, 0x00, 0x2E, 0x4F]\<rparr>
   \<and> unat (4 :: u16) = length [0x01, 0x00, 0x2E, 0x4F :: u8]
   \<and> spare_capacity (Communication (New MTS25Z8 Brushed (device_reply
       [0x91, 0x04, 0x04, 0x00, 0x81, 0x50, 0x01, 0x00, 0x2E, 0x4F]))) = []
   \<and> fst (GetDCStatusUpdate (New MTS25Z8 Brushed (device_reply
       [0x91, 0x04, 0x04, 0x00, 0x81, 0x50, 0x01, 0x00, 0x2E, 0x4F])) 1) = Inl PanicSliceBounds"
  using GetDCStatusUpdate_short_payload
    [of "New MTS25Z8 Brushed (device_reply
       [0x91, 0x04, 0x04, 0x00, 0x81, 0x50, 0x01, 0x00, 0x2E, 0x4F])"
       "\<lparr>DataMessage.ID = 0x0491, DataLength = 4, DataMessage.Destination = 0x01,
                   DataMessage.Source = 0x50, Data = [0x01, 0x00, 0x2E, 0x4F]\<rparr>"]
  by (simp add: New_def device_reply_def data_bytes_def)

text \<open>
  C9 as stated fails: the same reply in a slice with ten more elements of capacity
  gives no panic, the call returns a status read partly from the spare capacity.
\<close>

theorem GetDCStatusUpdate_short_payload_counterexample:
  "pending (device_reply_spare
       [0x91, 0x04, 0x04, 0x00, 0x81, 0x50, 0x01, 0x00, 0x2E, 0x4F]
       [0x05, 0x00, 0x32, 0x00, 0xF6, 0xFF, 0x01, 0x04, 0x00, 0x80]) =
     data_bytes \<lparr>DataMessage.ID = 0x0491, DataLength = 4, DataMessage.Destination = 0x01,
                 DataMessage.Source = 0x50, Data = [0x01, 0x00, 0x2E, 0x4F]\<rparr>
   \<and> fst (GetDCStatusUpdate (New MTS25Z8 Brushed (device_reply_spare
       [0x91, 0x04, 0x04, 0x00, 0x81, 0x50, 0x01, 0x00, 0x2E, 0x4F]
       [0x05, 0x00, 0x32, 0x00, 0xF6, 0xFF, 0x01, 0x04, 0x00, 0x80])) 1) =
     Inr \<lparr>DCStatusUpdate.Channel = 0x0001, DCStatusUpdate.Position = 0x00054F2E,
          DCStatusUpdate.Velocity = 0x0032, DCStatusUpdate.Current = 0xFFF6,
          DCStatusUpdate.StatusBits = 0x80000401\<rparr>
   \<and> fst (GetDCStatusUpdate (New MTS25Z8 Brushed (device_reply_spare
       [0x91, 0x04, 0x04, 0x00, 0x81, 0x50, 0x01, 0x00, 0x2E, 0x4F]
       [0x05, 0x00, 0x32, 0x00, 0xF6, 0xFF, 0x01, 0x04, 0x00, 0x80])) 1) \<noteq>
     Inl PanicSliceBounds"
  by (simp add: GetDCStatusUpdate_def RequestData_def WriteHeaderOnly_def ReadData_def
      comm_Write_def comm_Read_def New_def device_reply_spare_def data_bytes_def Let_def
      and_then_def slice_def BytesToWord_def BytesToLong_def BytesToDword_def BytesToShort_def)

section \<open>The type float64: properties\<close>

lemma pow2_powi: "pow2 e = 2 powi e"
  by (simp add: pow2_def power_int_def power_one_over inverse_eq_divide)

lemma pow2_pos: "0 < pow2 e"
  by (simp add: pow2_powi)

lemma pow2_mono: "a \<le> b \<Longrightarrow> pow2 a \<le> pow2 b"
  by (simp add: pow2_powi power_int_increasing)

lemma pow2_diff: "pow2 (a - b) = pow2 a / pow2 b"
  by (simp add: pow2_powi power_int_diff)

lemma pow2_nat: "0 \<le> e \<Longrightarrow> pow2 e = 2 ^ nat e"
  by (simp add: pow2_def)

lemma ilog2_lower:
  assumes "0 < a"
  shows "pow2 (ilog2 a) \<le> a"
proof -
  obtain n d where q: "quotient_of a = (n, d)"
    by (cases "quotient_of a")
  then have d: "0 < d" and a: "a = of_int n / of_int d"
    by (simp_all add: quotient_of_denom_pos quotient_of_div)
  with assms have n: "0 < n"
    by (simp add: zero_less_divide_iff)
  let ?k = "bitlen n - bitlen d"
  show ?thesis
  proof (cases "pow2 ?k \<le> a")
    case True
    with q show ?thesis by (simp add: ilog2_def Let_def)
  next
    case False
    have bn: "2 ^ nat (bitlen n - 1) \<le> n" and bd: "d < 2 ^ nat (bitlen d)"
      using bitlen_bounds [OF n] bitlen_bounds [OF d] by simp_all
    have n1: "1 \<le> bitlen n"
      using n bitlen_eq_zero_iff [of n] bitlen_nonneg [of n] by linarith
    have "pow2 (?k - 1) = pow2 (bitlen n - 1) / pow2 (bitlen d)"
      using pow2_diff [of "bitlen n - 1" "bitlen d"] by (simp add: algebra_simps)
    also have "\<dots> = 2 ^ nat (bitlen n - 1) / 2 ^ nat (bitlen d)"
      using n1 bitlen_nonneg [of d] by (simp add: pow2_nat)
    also have "\<dots> \<le> of_int n / of_int d"
    proof (rule frac_le)
      show "(0::rat) \<le> of_int n" using n by simp
      have "(of_int (2 ^ nat (bitlen n - 1)) :: rat) \<le> of_int n"
        using bn by (simp only: of_int_le_iff)
      then show "(2::rat) ^ nat (bitlen n - 1) \<le> of_int n" by simp
      show "(0::rat) < of_int d" using d by simp
      have "(of_int d :: rat) \<le> of_int (2 ^ nat (bitlen d))"
        using bd by (simp only: of_int_le_iff)
      then show "(of_int d :: rat) \<le> 2 ^ nat (bitlen d)" by simp
    qed
    finally have "pow2 (?k - 1) \<le> a" using a by simp
    with False q show ?thesis by (simp add: ilog2_def Let_def)
  qed
qed

lemma ilog2_upper:
  assumes "0 < a"
  shows "a < pow2 (ilog2 a + 1)"
proof -
  obtain n d where q: "quotient_of a = (n, d)"
    by (cases "quotient_of a")
  then have d: "0 < d" and a: "a = of_int n / of_int d"
    by (simp_all add: quotient_of_denom_pos quotient_of_div)
  with assms have n: "0 < n"
    by (simp add: zero_less_divide_iff)
  let ?k = "bitlen n - bitlen d"
  show ?thesis
  proof (cases "pow2 ?k \<le> a")
    case False
    with q show ?thesis by (simp add: ilog2_def Let_def)
  next
    case True
    have bn: "n < 2 ^ nat (bitlen n)" and bd: "2 ^ nat (bitlen d - 1) \<le> d"
      using bitlen_bounds [OF n] bitlen_bounds [OF d] by simp_all
    have d1: "1 \<le> bitlen d"
      using d bitlen_eq_zero_iff [of d] bitlen_nonneg [of d] by linarith
    have "of_int n / of_int d < (2 ^ nat (bitlen n) / 2 ^ nat (bitlen d - 1) :: rat)"
    proof (rule frac_less)
      show "(0::rat) \<le> of_int n" using n by simp
      have "(of_int n :: rat) < of_int (2 ^ nat (bitlen n))"
        using bn by (simp only: of_int_less_iff)
      then show "(of_int n :: rat) < 2 ^ nat (bitlen n)" by simp
      show "(0::rat) < 2 ^ nat (bitlen d - 1)" by simp
      have "(of_int (2 ^ nat (bitlen d - 1)) :: rat) \<le> of_int d"
        using bd by (simp only: of_int_le_iff)
      then show "(2::rat) ^ nat (bitlen d - 1) \<le> of_int d" by simp
    qed
    also have "\<dots> = pow2 (bitlen n) / pow2 (bitlen d - 1)"
      using d1 bitlen_nonneg [of n] by (simp add: pow2_nat)
    also have "\<dots> = pow2 (?k + 1)"
      using pow2_diff [of "bitlen n" "bitlen d - 1"] by (simp add: algebra_simps)
    finally have "a < pow2 (?k + 1)" using a by simp
    with True q show ?thesis by (simp add: ilog2_def Let_def)
  qed
qed

lemma round_half_even_bounds:
  "\<lfloor>x\<rfloor> \<le> round_half_even x" "of_int (round_half_even x) \<le> x + 1"
proof -
  show "\<lfloor>x\<rfloor> \<le> round_half_even x"
    by (simp add: round_half_even_def Let_def)
  have "of_int \<lfloor>x\<rfloor> \<le> x" by simp
  then have "of_int \<lfloor>x\<rfloor> \<le> x + 1" by linarith
  with \<open>of_int \<lfloor>x\<rfloor> \<le> x\<close> show "of_int (round_half_even x) \<le> x + 1"
    by (simp add: round_half_even_def Let_def)
qed

lemma f64_round_negative:
  assumes "q < 0" and "pow2 (- 1022) \<le> - q" and "- q \<le> pow2 1000"
  shows "\<exists>r. f64_round q = Fin r \<and> r < 0"
proof -
  let ?a = "\<bar>q\<bar>"
  let ?e = "max (ilog2 ?a - 52) (- 1074)"
  let ?m = "round_half_even (?a / pow2 ?e)"
  let ?r = "of_int ?m * pow2 ?e"
  have a: "?a = - q" "0 < ?a" using assms(1) by simp_all
  have e: "pow2 ?e \<le> ?a"
  proof (cases "ilog2 ?a - 52 \<le> - 1074")
    case True
    then have "?e = - 1074" by simp
    moreover have "pow2 (- 1074) \<le> pow2 (- 1022)" by (rule pow2_mono) simp
    ultimately show ?thesis using assms(2) a(1) by simp
  next
    case False
    then have "?e = ilog2 ?a - 52" by simp
    moreover have "pow2 (ilog2 ?a - 52) \<le> pow2 (ilog2 ?a)" by (rule pow2_mono) simp
    ultimately show ?thesis using ilog2_lower [OF a(2)] by simp
  qed
  then have "1 \<le> ?a / pow2 ?e"
    using pow2_pos [of ?e] by (simp add: le_divide_eq)
  then have "1 \<le> \<lfloor>?a / pow2 ?e\<rfloor>" by (simp add: le_floor_iff)
  with round_half_even_bounds(1) [of "?a / pow2 ?e"] have m: "1 \<le> ?m" by linarith
  then have "(1::rat) \<le> of_int ?m" by (simp only: of_int_1_le_iff)
  then have "1 * pow2 ?e \<le> ?r"
    using pow2_pos [of ?e] by (intro mult_right_mono) simp_all
  then have rpos: "0 < ?r" using pow2_pos [of ?e] by simp
  have "?r \<le> (?a / pow2 ?e + 1) * pow2 ?e"
    using round_half_even_bounds(2) [of "?a / pow2 ?e"] pow2_pos [of ?e]
    by (intro mult_right_mono) simp_all
  also have "\<dots> = ?a + pow2 ?e"
    using pow2_pos [of ?e] by (simp add: algebra_simps)
  also have "\<dots> \<le> pow2 1000 + pow2 1000"
    using e assms(3) a(1) by simp
  also have "\<dots> = pow2 1001" by (simp add: pow2_def)
  also have "\<dots> < pow2 1024" by (simp add: pow2_def)
  finally have "\<not> pow2 1024 \<le> ?r" by simp
  then have "f64_round q = Fin (- ?r)"
    using assms(1) by (simp add: f64_round_def Let_def)
  with rpos show ?thesis by simp
qed

section \<open>Calibration and conversion: properties\<close>

text \<open>The constants of the two tables, as the binary64 numbers they round to.\<close>

lemma scale_34554_96: "f64_round (3455496 / 100) = Fin (4749197539666821 / 137438953472)"
  by code_simp
lemma scale_24600: "f64_round 24600 = Fin 24600"
  by code_simp
lemma scale_1919: "f64_round (19196418578623391 / 10000000000000) = Fin (8442674175540661 / 4398046511104)"
  by code_simp
lemma scale_12288: "f64_round 12288 = Fin 12288"
  by code_simp
lemma scale_20000: "f64_round 20000 = Fin 20000"
  by code_simp
lemma time_factor: "f64_round (2048 / (6 * 1000000)) = Fin (3148244321913097 / 9223372036854775808)"
  by code_simp

lemma u32_bytes_join:
  "ucast (ucast w :: u8) OR push_bit 8 (ucast (ucast (drop_bit 8 w) :: u8))
     OR push_bit 16 (ucast (ucast (drop_bit 16 w) :: u8))
     OR push_bit 24 (ucast (ucast (drop_bit 24 w) :: u8)) = (w :: u32)"
proof (rule bit_eqI)
  fix n :: nat
  consider "n < 8" | "8 \<le> n" "n < 16" | "16 \<le> n" "n < 24" | "24 \<le> n"
    by linarith
  then show "bit (ucast (ucast w :: u8) OR push_bit 8 (ucast (ucast (drop_bit 8 w) :: u8))
     OR push_bit 16 (ucast (ucast (drop_bit 16 w) :: u8))
     OR push_bit 24 (ucast (ucast (drop_bit 24 w) :: u8)) :: u32) n = bit w n"
    by cases (auto simp add: bit_simps dest: bit_imp_le_length)
qed

lemma BytesToDword_DwordToBytes: "BytesToDword (DwordToBytes w) = Inr w"
  by (simp add: BytesToDword_def DwordToBytes_def u32_bytes_join)

lemma sint_negative:
  fixes w :: u32
  assumes "2 ^ 31 \<le> unat w"
  shows "sint w < 0" and "- (2 ^ 31) \<le> sint w"
proof -
  have "int (2 ^ 31) \<le> int (unat w)"
    using assms by (simp only: of_nat_le_iff)
  then have "(2::int) ^ 31 \<le> uint w"
    by (simp only: uint_nat of_nat_power of_nat_numeral)
  then have le: "signed_take_bit 31 (uint w) \<le> uint w - 2 ^ Suc 31"
    by (rule signed_take_bit_int_less_eq)
  have "sint w = signed_take_bit 31 (uint w)"
    by (simp add: sint_uint)
  also note le
  also have "uint w - 2 ^ Suc 31 < 0"
    using uint_bounded [of w] by simp
  finally show "sint w < 0" .
  show "- (2 ^ 31) \<le> sint w"
    using sint_ge [of w] by simp
qed

lemma stage_scale_table:
  "StageScalingFactor MTS25Z8 = Some (f64_round (3455496 / 100))"
  "StageScalingFactor MTS50Z8 = Some (f64_round (3455496 / 100))"
  "StageScalingFactor Z8xx = Some (f64_round (3455496 / 100))"
  "StageScalingFactor Z6xx = Some (f64_round 24600)"
  "StageScalingFactor PRM1Z8 = Some (f64_round (19196418578623391 / 10000000000000))"
  "StageScalingFactor PRMTZ8 = Some (f64_round (19196418578623391 / 10000000000000))"
  "StageScalingFactor CR1Z7 = Some (f64_round 12288)"
  "StageScalingFactor KVS30 = Some (f64_round 20000)"
  by (simp_all add: StageScalingFactor_def MTS25Z8_def MTS50Z8_def Z8xx_def
      Z6xx_def PRM1Z8_def PRMTZ8_def CR1Z7_def KVS30_def)

lemma motor_factor_table:
  "MotorTFactor Brushed = Some (f64_round (2048 / (6 * 1000000)))"
  "MotorTFactor Brushless = Some (f64_round (2048 / (6 * 1000000)))"
  by (simp_all add: MotorTFactor_def Brushed_def Brushless_def)

lemma stage_scale_values:
  "map_index StageScalingFactor MTS25Z8 = Fin (4749197539666821 / 137438953472)"
  "map_index StageScalingFactor MTS50Z8 = Fin (4749197539666821 / 137438953472)"
  "map_index StageScalingFactor Z8xx = Fin (4749197539666821 / 137438953472)"
  "map_index StageScalingFactor Z6xx = Fin 24600"
  "map_index StageScalingFactor PRM1Z8 = Fin (8442674175540661 / 4398046511104)"
  "map_index StageScalingFactor PRMTZ8 = Fin (8442674175540661 / 4398046511104)"
  "map_index StageScalingFactor CR1Z7 = Fin 12288"
  "map_index StageScalingFactor KVS30 = Fin 20000"
  by (simp_all only: map_index_def stage_scale_table option.case
      scale_34554_96 scale_24600 scale_1919 scale_12288 scale_20000)

lemma motor_factor_values:
  "map_index MotorTFactor Brushed = Fin (3148244321913097 / 9223372036854775808)"
  "map_index MotorTFactor Brushless = Fin (3148244321913097 / 9223372036854775808)"
  by (simp_all only: map_index_def motor_factor_table option.case time_factor)

lemma New_fields:
  "Communication (New stage motor comm) = comm"
  "StageType (New stage motor comm) = stage"
  "MotorType (New stage motor comm) = motor"
  "(New stage motor comm)\<lparr>Communication := comm'\<rparr> = New stage motor comm'"
  by (simp_all add: New_def)

lemma ten_times_scale:
  "f64_mul (Fin 10) (Fin (4749197539666821 / 137438953472)) = Fin (2968248462291763 / 8589934592)"
  by code_simp

lemma trunc_ten_times_scale: "trunc_rat (2968248462291763 / 8589934592) = 345549"
  by code_simp

lemma PositionToCounts_ten:
  "PositionToCounts (New MTS25Z8 Brushed comm) (Fin 10) = 345549"
  by (simp add: PositionToCounts_def New_fields stage_scale_values ten_times_scale
      f64_to_int32_def trunc_ten_times_scale)

text \<open>
  C3 (as amended). On a controller built for stage MTS25-Z8 and motor Brushed,
  \<open>PositionToCounts(10.0)\<close> is 345549: the product of 10 and the scale 34554.96, as a
  \<open>float64\<close>, lies strictly between 345549 and 345550, and the conversion to \<open>int32\<close>
  drops the fraction. No rounding to the nearest count and no clamping takes place.
\<close>

theorem PositionToCounts_truncates:
  "PositionToCounts (New MTS25Z8 Brushed comm) (Fin 10) = 345549
   \<and> f64_mul (Fin 10) (map_index StageScalingFactor MTS25Z8) = Fin (2968248462291763 / 8589934592)
   \<and> (345549 :: rat) < 2968248462291763 / 8589934592
   \<and> (2968248462291763 / 8589934592 :: rat) < 345550"
  by (simp add: PositionToCounts_ten stage_scale_values ten_times_scale)

text \<open>C3 as stated fails: the count is not 345550.\<close>

theorem PositionToCounts_rounds_counterexample:
  "PositionToCounts (New MTS25Z8 Brushed (device_reply [])) (Fin 10) \<noteq> 345550"
  by (simp add: PositionToCounts_ten)



text \<open>
  C8. \<open>MoveAbsolutePosition(1, 10.0)\<close> on the MTS25-Z8/Brushed controller makes one call
  on the transport, the write of one frame: command id 0x0453, length 6, destination
  byte 0x50 OR 0x80 = 0xD0, source 0x01, and the payload 0x01, 0x00 followed by the four
  little-endian bytes of the position count.
\<close>

theorem MoveAbsolutePosition_frame:
  "snd (MoveAbsolutePosition (New MTS25Z8 Brushed comm) 1 (Fin 10)) =
     New MTS25Z8 Brushed (comm\<lparr>trace := trace comm @
       [IoWrite [0x53, 0x04, 0x06, 0x00, 0xD0, 0x01, 0x01, 0x00, 0xCD, 0x45, 0x05, 0x00]]\<rparr>)
   \<and> [0x53, 0x04, 0x06, 0x00, 0xD0, 0x01, 0x01, 0x00, 0xCD, 0x45, 0x05, 0x00] =
       data_bytes \<lparr>DataMessage.ID = 0x0453, DataLength = 6,
                    DataMessage.Destination = GenericUnit, DataMessage.Source = Host,
                    Data = [0x01, 0x00]
                           @ LongToBytes (PositionToCounts (New MTS25Z8 Brushed comm) (Fin 10))\<rparr>
   \<and> GenericUnit OR 0x80 = 0xD0 \<and> Host = 0x01"
  by (simp add: MoveAbsolutePosition_def PositionToCounts_ten WriteData_def comm_Write_def
      data_msg_def data_bytes_def LongToBytes_def DwordToBytes_def channel_mask_def
      GenericUnit_def Host_def New_fields Let_def)

lemma time_factor_squared:
  "f64_mul (f64_mul (Fin (3148244321913097 / 9223372036854775808))
                    (Fin (3148244321913097 / 9223372036854775808))) (Fin 65536) =
     Fin (4401564584125797 / 576460752303423488)"
  by code_simp

lemma acceleration_divisors:
  "f64_mul (Fin (4401564584125797 / 576460752303423488)) (Fin (4749197539666821 / 137438953472)) =
     Fin (580199768607649 / 2199023255552)"
  "f64_mul (Fin (4401564584125797 / 576460752303423488)) (Fin 24600) =
     Fin (3304397240279987 / 17592186044416)"
  "f64_mul (Fin (4401564584125797 / 576460752303423488)) (Fin (8442674175540661 / 4398046511104)) =
     Fin (8251394156027655 / 562949953421312)"
  "f64_mul (Fin (4401564584125797 / 576460752303423488)) (Fin 12288) =
     Fin (825293359523587 / 8796093022208)"
  "f64_mul (Fin (4401564584125797 / 576460752303423488)) (Fin 20000) =
     Fin (2686501821365843 / 17592186044416)"
  by code_simp+

lemma acceleration_divisor_supported:
  assumes "StageScalingFactor (StageType k) \<noteq> None" and "MotorTFactor (MotorType k) \<noteq> None"
  shows "case f64_mul (f64_mul (f64_mul (map_index MotorTFactor (MotorType k))
                                        (map_index MotorTFactor (MotorType k))) (Fin 65536))
                (map_index StageScalingFactor (StageType k)) of
           Fin d \<Rightarrow> 1 \<le> d \<and> d \<le> 1024 | _ \<Rightarrow> False"
proof -
  from assms(2) have "MotorType k = Brushed \<or> MotorType k = Brushless"
    by (auto simp add: MotorTFactor_def Brushed_def Brushless_def split: if_splits)
  then have T: "map_index MotorTFactor (MotorType k) = Fin (3148244321913097 / 9223372036854775808)"
    using motor_factor_values by auto
  from assms(1) consider "StageType k = MTS25Z8" | "StageType k = MTS50Z8" | "StageType k = Z8xx"
    | "StageType k = Z6xx" | "StageType k = PRM1Z8" | "StageType k = PRMTZ8"
    | "StageType k = CR1Z7" | "StageType k = KVS30"
    by (auto simp add: StageScalingFactor_def MTS25Z8_def MTS50Z8_def Z8xx_def
        Z6xx_def PRM1Z8_def PRMTZ8_def CR1Z7_def KVS30_def split: if_splits)
  then show ?thesis
    by cases (simp_all add: T stage_scale_values time_factor_squared acceleration_divisors)
qed

lemma f64_div_negative:
  assumes "c \<le> - 1" and "- (2 ^ 31) \<le> c" and "1 \<le> d" and "d \<le> 1024"
  shows "\<exists>r. f64_div (Fin (of_int c)) (Fin d) = Fin r \<and> r < 0"
proof -
  let ?q = "of_int c / d :: rat"
  have c: "(of_int c :: rat) \<le> - 1" "- (2 ^ 31) \<le> (of_int c :: rat)"
    using assms(1,2) by (simp_all add: of_int_le_iff [symmetric] del: of_int_le_iff)
  have d: "0 < d" using assms(3) by simp
  have neg: "?q < 0"
    using c(1) d by (simp add: divide_less_0_iff)
  have "1 / 1024 \<le> 1 / d"
    using assms(3,4) by (simp add: frac_le)
  also have "\<dots> \<le> (- of_int c) / d"
  proof (rule divide_right_mono)
    show "1 \<le> - (of_int c :: rat)" using c(1) by simp
    show "0 \<le> d" using d by simp
  qed
  finally have "1 / 1024 \<le> - ?q" by simp
  moreover have "pow2 (- 1022) \<le> 1 / 1024"
    by (simp add: pow2_def)
  ultimately have lo: "pow2 (- 1022) \<le> - ?q" by simp
  have "(- of_int c) / d \<le> (- of_int c) / 1"
    using c(1) assms(3) by (intro divide_left_mono) simp_all
  also have "\<dots> \<le> 2 ^ 31" using c(2) by simp
  also have "\<dots> \<le> pow2 1000" by (simp add: pow2_def)
  finally have hi: "- ?q \<le> pow2 1000" by simp
  from f64_round_negative [OF neg lo hi] d show ?thesis
    by (simp add: f64_div_def)
qed

lemma CountsToAcceleration_negative:
  assumes "StageScalingFactor (StageType k) \<noteq> None" and "MotorTFactor (MotorType k) \<noteq> None"
    and "2 ^ 31 \<le> unat counts"
  shows "\<exists>r. CountsToAcceleration k counts = Fin r \<and> r < 0"
proof -
  from acceleration_divisor_supported [OF assms(1,2)] obtain d where
    d: "f64_mul (f64_mul (f64_mul (map_index MotorTFactor (MotorType k))
                                  (map_index MotorTFactor (MotorType k))) (Fin 65536))
          (map_index StageScalingFactor (StageType k)) = Fin d" "1 \<le> d" "d \<le> 1024"
    by (auto split: f64.splits)
  from sint_negative [OF assms(3)] have "sint counts \<le> - 1" "- (2 ^ 31) \<le> sint counts"
    by simp_all
  from f64_div_negative [OF this d(2,3)] d(1) show ?thesis
    by (simp add: CountsToAcceleration_def f64_of_int_def Let_def)
qed

lemma trapezoidal_slices:
  assumes "data = [m, z] @ DwordToBytes a @ DwordToBytes b @ DwordToBytes c"
  shows "and_then (and_then (slice spare data 2 6) BytesToDword) (\<lambda>minVel.
         and_then (and_then (slice spare data 6 10) BytesToLong) (\<lambda>accel.
         and_then (and_then (slice spare data 10 14) BytesToDword) (\<lambda>maxVel.
           Inr (f minVel accel maxVel)))) = Inr (f a b c)"
    and "length data = 14"
  using assms
  by (simp_all add: and_then_def slice_def BytesToLong_def BytesToDword_def DwordToBytes_def
      u32_bytes_join)

lemma acceleration_divisor_unsupported:
  assumes "StageScalingFactor (StageType k) = None \<or> MotorTFactor (MotorType k) = None"
  shows "f64_mul (f64_mul (f64_mul (map_index MotorTFactor (MotorType k))
                                   (map_index MotorTFactor (MotorType k))) (Fin 65536))
           (map_index StageScalingFactor (StageType k)) = Fin 0"
proof -
  have zero: "f64_mul (Fin 0) (Fin b) = Fin 0" "f64_mul (Fin a) (Fin 0) = Fin 0" for a b
    by (simp_all add: f64_mul_def f64_round_def)
  have T: "map_index MotorTFactor (MotorType k) = Fin 0
      \<or> map_index MotorTFactor (MotorType k) = Fin (3148244321913097 / 9223372036854775808)"
  proof (cases "MotorTFactor (MotorType k)")
    case None
    then show ?thesis by (simp add: map_index_def)
  next
    case (Some v)
    then have "MotorType k = Brushed \<or> MotorType k = Brushless"
      by (auto simp add: MotorTFactor_def Brushed_def Brushless_def split: if_splits)
    then show ?thesis using motor_factor_values by auto
  qed
  have "\<exists>x. f64_mul (f64_mul (map_index MotorTFactor (MotorType k))
      (map_index MotorTFactor (MotorType k))) (Fin 65536) = Fin x
      \<and> (MotorTFactor (MotorType k) = None \<longrightarrow> x = 0)"
  proof (cases "MotorTFactor (MotorType k)")
    case None
    then show ?thesis by (simp add: map_index_def zero)
  next
    case (Some v)
    with T show ?thesis
      by (auto simp only: zero time_factor_squared option.distinct simp_thms)
  qed
  then obtain x where X: "f64_mul (f64_mul (map_index MotorTFactor (MotorType k))
      (map_index MotorTFactor (MotorType k))) (Fin 65536) = Fin x"
    "MotorTFactor (MotorType k) = None \<Longrightarrow> x = 0"
    by auto
  show ?thesis
  proof (cases "StageScalingFactor (StageType k)")
    case None
    then have "map_index StageScalingFactor (StageType k) = Fin 0"
      by (simp add: map_index_def)
    then show ?thesis by (simp add: X(1) zero)
  next
    case (Some v)
    with assms have m: "MotorTFactor (MotorType k) = None" by simp
    from Some have "StageType k = MTS25Z8 \<or> StageType k = MTS50Z8 \<or> StageType k = Z8xx
      \<or> StageType k = Z6xx \<or> StageType k = PRM1Z8 \<or> StageType k = PRMTZ8
      \<or> StageType k = CR1Z7 \<or> StageType k = KVS30"
      by (auto simp add: StageScalingFactor_def MTS25Z8_def MTS50Z8_def Z8xx_def
          Z6xx_def PRM1Z8_def PRMTZ8_def CR1Z7_def KVS30_def split: if_splits)
    then obtain e where "map_index StageScalingFactor (StageType k) = Fin e"
      by (metis stage_scale_values)
    with X(1) X(2) [OF m] show ?thesis by (simp add: zero)
  qed
qed

lemma CountsToAcceleration_is_neg:
  assumes "2 ^ 31 \<le> unat counts"
  shows "is_neg (CountsToAcceleration k counts)"
proof (cases "StageScalingFactor (StageType k) \<noteq> None \<and> MotorTFactor (MotorType k) \<noteq> None")
  case True
  with CountsToAcceleration_negative [OF _ _ assms, of k] show ?thesis by auto
next
  case False
  then have "StageScalingFactor (StageType k) = None \<or> MotorTFactor (MotorType k) = None"
    by simp
  then have d: "f64_mul (f64_mul (f64_mul (map_index MotorTFactor (MotorType k))
                                   (map_index MotorTFactor (MotorType k))) (Fin 65536))
           (map_index StageScalingFactor (StageType k)) = Fin 0"
    by (rule acceleration_divisor_unsupported)
  have "(of_int (sint counts) :: rat) < of_int 0"
    using sint_negative(1) [OF assms] by (simp only: of_int_less_iff)
  then have "f64_div (Fin (of_int (sint counts))) (Fin 0) = NInf"
    by (simp add: f64_div_def f64_inf_def)
  then show ?thesis
    by (simp only: CountsToAcceleration_def f64_of_int_def Let_def d is_neg.simps)
qed

lemma trapezoidal_set_then_get:
  assumes "link_up (Communication k)"
    and "pending (Communication k) = data_bytes reply"
    and "DataLength reply = 14"
    and "Data reply =
           [0x01, 0x00] @ DwordToBytes (VelocityToCounts k (VelocityProfile.MinVelocity profile))
           @ DwordToBytes (AccelerationToCounts k (VelocityProfile.Acceleration profile))
           @ DwordToBytes (VelocityToCounts k (VelocityProfile.MaxVelocity profile))"
  shows "trace (Communication (snd (SetTrapezoidalVelocity k 1 profile))) =
           trace (Communication k) @ [IoWrite (data_bytes (data_msg 0x0413 (Data reply)))]"
    and "fst (GetTrapezoidalVelocity (snd (SetTrapezoidalVelocity k 1 profile)) 1) =
           Inr \<lparr>VelocityProfile.MinVelocity =
                  CountsToVelocity k (VelocityToCounts k (VelocityProfile.MinVelocity profile)),
                VelocityProfile.MaxVelocity =
                  CountsToVelocity k (VelocityToCounts k (VelocityProfile.MaxVelocity profile)),
                VelocityProfile.Acceleration =
                  CountsToAcceleration k
                    (AccelerationToCounts k (VelocityProfile.Acceleration profile))\<rparr>"
proof -
  let ?c = "(Communication k)\<lparr>trace := trace (Communication k)
              @ [IoWrite (data_bytes (data_msg 0x0413 (Data reply)))]\<rparr>"
  let ?k = "k\<lparr>Communication := ?c\<rparr>"
  have set: "snd (SetTrapezoidalVelocity k 1 profile) = ?k"
    by (simp add: SetTrapezoidalVelocity_def WriteData_def comm_Write_def Let_def
        channel_mask_def assms(4))
  have len: "length (Data reply) = 14"
    by (rule trapezoidal_slices(2) [OF assms(4)])
  have req: "fst (RequestData ?k (header_msg 0x0414 (channel_mask 1) 0x00)) =
          Inr (reply\<lparr>DataMessage.Destination := DataMessage.Destination reply OR 0x80\<rparr>)"
    by (rule RequestData_data_bytes) (simp_all add: assms(1,2,3) len)
  have conv: "CountsToVelocity ?k = CountsToVelocity k"
    "CountsToAcceleration ?k = CountsToAcceleration k"
    by (simp_all add: fun_eq_iff CountsToVelocity_def CountsToAcceleration_def)
  show "trace (Communication (snd (SetTrapezoidalVelocity k 1 profile))) =
           trace (Communication k) @ [IoWrite (data_bytes (data_msg 0x0413 (Data reply)))]"
    unfolding set by simp
  show "fst (GetTrapezoidalVelocity (snd (SetTrapezoidalVelocity k 1 profile)) 1) =
           Inr \<lparr>VelocityProfile.MinVelocity =
                  CountsToVelocity k (VelocityToCounts k (VelocityProfile.MinVelocity profile)),
                VelocityProfile.MaxVelocity =
                  CountsToVelocity k (VelocityToCounts k (VelocityProfile.MaxVelocity profile)),
                VelocityProfile.Acceleration =
                  CountsToAcceleration k
                    (AccelerationToCounts k (VelocityProfile.Acceleration profile))\<rparr>"
    unfolding set using req len
    by (simp add: GetTrapezoidalVelocity_def split_beta trapezoidal_slices(1) [OF assms(4)]
        conv split: prod.splits sum.splits)
qed

text \<open>
  C10 (as amended). \<open>SetTrapezoidalVelocity\<close> writes the acceleration count as an
  unsigned 32-bit value and \<open>GetTrapezoidalVelocity\<close> reads the same four bytes as a
  signed one. When the count written is at least \<open>2^31\<close> and the device answers with the
  parameters it was sent, the acceleration read back is negative; it is not the
  acceleration that was set whenever that one was not negative. On a supported
  calibration it is a negative number; with a label outside the tables the divisor is
  zero and it is minus infinity.
\<close>

theorem trapezoidal_acceleration_round_trip:
  assumes "2 ^ 31 \<le> unat (AccelerationToCounts k (VelocityProfile.Acceleration profile))"
    and "link_up (Communication k)"
    and "pending (Communication k) = data_bytes reply"
    and "DataLength reply = 14"
    and "Data reply =
           [0x01, 0x00] @ DwordToBytes (VelocityToCounts k (VelocityProfile.MinVelocity profile))
           @ DwordToBytes (AccelerationToCounts k (VelocityProfile.Acceleration profile))
           @ DwordToBytes (VelocityToCounts k (VelocityProfile.MaxVelocity profile))"
  shows "trace (Communication (snd (SetTrapezoidalVelocity k 1 profile))) =
           trace (Communication k) @ [IoWrite (data_bytes (data_msg 0x0413 (Data reply)))]
       \<and> fst (GetTrapezoidalVelocity (snd (SetTrapezoidalVelocity k 1 profile)) 1) =
           Inr \<lparr>VelocityProfile.MinVelocity =
                  CountsToVelocity k (VelocityToCounts k (VelocityProfile.MinVelocity profile)),
                VelocityProfile.MaxVelocity =
                  CountsToVelocity k (VelocityToCounts k (VelocityProfile.MaxVelocity profile)),
                VelocityProfile.Acceleration =
                  CountsToAcceleration k
                    (AccelerationToCounts k (VelocityProfile.Acceleration profile))\<rparr>
       \<and> is_neg (CountsToAcceleration k
                    (AccelerationToCounts k (VelocityProfile.Acceleration profile)))
       \<and> (\<not> is_neg (VelocityProfile.Acceleration profile) \<longrightarrow>
            CountsToAcceleration k (AccelerationToCounts k (VelocityProfile.Acceleration profile))
              \<noteq> VelocityProfile.Acceleration profile)
       \<and> (StageScalingFactor (StageType k) \<noteq> None \<and> MotorTFactor (MotorType k) \<noteq> None
            \<longrightarrow> (\<exists>r. CountsToAcceleration k
                        (AccelerationToCounts k (VelocityProfile.Acceleration profile)) = Fin r
                     \<and> r < 0))"
proof -
  let ?a = "CountsToAcceleration k (AccelerationToCounts k (VelocityProfile.Acceleration profile))"
  note rt = trapezoidal_set_then_get [OF assms(2,3,4,5)]
  have neg: "is_neg ?a"
    by (rule CountsToAcceleration_is_neg [OF assms(1)])
  then have differs: "\<not> is_neg (VelocityProfile.Acceleration profile) \<longrightarrow>
      ?a \<noteq> VelocityProfile.Acceleration profile"
    by auto
  have fin: "StageScalingFactor (StageType k) \<noteq> None \<and> MotorTFactor (MotorType k) \<noteq> None
      \<longrightarrow> (\<exists>r. ?a = Fin r \<and> r < 0)"
    using CountsToAcceleration_negative [OF _ _ assms(1), of k] by blast
  from rt neg differs fin show ?thesis
    by (intro conjI)
qed

lemma acceleration_1e7_product:
  "f64_mul (f64_mul (f64_mul (Fin 10000000)
       (f64_mul (Fin (3148244321913097 / 9223372036854775808))
                (Fin (3148244321913097 / 9223372036854775808)))) (Fin 65536))
     (Fin (4749197539666821 / 137438953472)) = Fin (5533216177059641 / 2097152)"
  by code_simp

lemma trunc_acceleration_1e7: "trunc_rat (5533216177059641 / 2097152) = 2638443077"
  by code_simp

lemma AccelerationToCounts_1e7:
  "AccelerationToCounts (New MTS25Z8 Brushed comm) (Fin 10000000) = 2638443077"
  by (simp add: AccelerationToCounts_def New_fields stage_scale_values motor_factor_values
      acceleration_1e7_product f64_to_uint32_def trunc_acceleration_1e7)

lemma VelocityToCounts_zero:
  "VelocityToCounts (New MTS25Z8 Brushed comm) (Fin 0) = 0"
  by (simp add: VelocityToCounts_def New_fields stage_scale_values motor_factor_values
      f64_mul_def f64_round_def f64_to_uint32_def trunc_rat_def)

lemma velocity_divisor:
  "f64_mul (f64_mul (Fin (3148244321913097 / 9223372036854775808)) (Fin 65536))
     (Fin (4749197539666821 / 137438953472)) = Fin (6639859412471569 / 8589934592)"
  by code_simp

lemma CountsToVelocity_zero:
  "CountsToVelocity (New MTS25Z8 Brushed comm) 0 = Fin 0"
  by (simp add: CountsToVelocity_def New_fields stage_scale_values motor_factor_values
      velocity_divisor f64_of_int_def f64_div_def f64_round_def)

text \<open>
  An acceleration of \<open>10^7\<close> on the MTS25-Z8/Brushed controller: its count is 2638443077,
  bytes 0x45, 0x72, 0x43, 0x9D.
\<close>

theorem trapezoidal_acceleration_round_trip_witness:
  "2 ^ 31 \<le> unat (AccelerationToCounts (New MTS25Z8 Brushed (device_reply
       [0x15, 0x04, 0x0E, 0x00, 0x81, 0x50,
        0x01, 0x00, 0x00, 0x00, 0x00, 0x00, 0x45, 0x72, 0x43, 0x9D, 0x00, 0x00, 0x00, 0x00]))
       (Fin 10000000))
   \<and> DwordToBytes (AccelerationToCounts (New MTS25Z8 Brushed (device_reply
       [0x15, 0x04, 0x0E, 0x00, 0x81, 0x50,
        0x01, 0x00, 0x00, 0x00, 0x00, 0x00, 0x45, 0x72, 0x43, 0x9D, 0x00, 0x00, 0x00, 0x00]))
       (Fin 10000000)) = [0x45, 0x72, 0x43, 0x9D]
   \<and> (\<exists>r. fst (GetTrapezoidalVelocity (snd (SetTrapezoidalVelocity
         (New MTS25Z8 Brushed (device_reply
           [0x15, 0x04, 0x0E, 0x00, 0x81, 0x50,
            0x01, 0x00, 0x00, 0x00, 0x00, 0x00, 0x45, 0x72, 0x43, 0x9D, 0x00, 0x00, 0x00, 0x00]))
         1 \<lparr>VelocityProfile.MinVelocity = Fin 0, VelocityProfile.MaxVelocity = Fin 0,
             VelocityProfile.Acceleration = Fin 10000000\<rparr>)) 1) =
        Inr \<lparr>VelocityProfile.MinVelocity = Fin 0, VelocityProfile.MaxVelocity = Fin 0,
             VelocityProfile.Acceleration = Fin r\<rparr> \<and> r < 0)"
proof -
  let ?k = "New MTS25Z8 Brushed (device_reply
       [0x15, 0x04, 0x0E, 0x00, 0x81, 0x50,
        0x01, 0x00, 0x00, 0x00, 0x00, 0x00, 0x45, 0x72, 0x43, 0x9D, 0x00, 0x00, 0x00, 0x00])"
  let ?p = "\<lparr>VelocityProfile.MinVelocity = Fin 0, VelocityProfile.MaxVelocity = Fin 0,
             VelocityProfile.Acceleration = Fin 10000000\<rparr>"
  let ?reply = "\<lparr>DataMessage.ID = 0x0415, DataLength = 14, DataMessage.Destination = 0x01,
      DataMessage.Source = 0x50,
      Data = [0x01, 0x00, 0x00, 0x00, 0x00, 0x00, 0x45, 0x72, 0x43, 0x9D, 0x00, 0x00, 0x00, 0x00]\<rparr>"
  have h1: "StageScalingFactor (StageType ?k) \<noteq> None" "MotorTFactor (MotorType ?k) \<noteq> None"
    by (simp_all add: New_fields stage_scale_table motor_factor_table)
  have h3: "2 ^ 31 \<le> unat (AccelerationToCounts ?k (VelocityProfile.Acceleration ?p))"
    by (simp add: AccelerationToCounts_1e7)
  have h4: "link_up (Communication ?k)" "pending (Communication ?k) = data_bytes ?reply"
    "DataLength ?reply = 14"
    by (simp_all add: New_fields device_reply_def data_bytes_def)
  have b: "DwordToBytes (AccelerationToCounts ?k (Fin 10000000)) = [0x45, 0x72, 0x43, 0x9D]"
    by (simp add: AccelerationToCounts_1e7 DwordToBytes_def)
  have h7: "Data ?reply =
           [0x01, 0x00] @ DwordToBytes (VelocityToCounts ?k (VelocityProfile.MinVelocity ?p))
           @ DwordToBytes (AccelerationToCounts ?k (VelocityProfile.Acceleration ?p))
           @ DwordToBytes (VelocityToCounts ?k (VelocityProfile.MaxVelocity ?p))"
    using b by (simp add: VelocityToCounts_zero DwordToBytes_def)
  have z: "CountsToVelocity ?k 0 = Fin 0"
    by (rule CountsToVelocity_zero)
  from trapezoidal_acceleration_round_trip [OF h3 h4 h7] h1 h3 b z
  show ?thesis
    by (auto simp add: VelocityToCounts_zero)
qed

lemma acceleration_minus_one_product:
  "f64_mul (f64_mul (f64_mul (Fin (- (4369703915154293 / 1152921504606846976)))
       (f64_mul (Fin (3148244321913097 / 9223372036854775808))
                (Fin (3148244321913097 / 9223372036854775808)))) (Fin 65536))
     (Fin (4749197539666821 / 137438953472)) = Fin (- 1)"
  by code_simp

lemma AccelerationToCounts_wraps:
  "AccelerationToCounts (New MTS25Z8 Brushed comm)
     (Fin (- (4369703915154293 / 1152921504606846976))) = 0xFFFFFFFF"
  by (simp add: AccelerationToCounts_def New_fields stage_scale_values motor_factor_values
      acceleration_minus_one_product f64_to_uint32_def trunc_rat_def)

lemma minus_one_by_divisor:
  "f64_div (Fin (- 1)) (Fin (580199768607649 / 2199023255552)) =
     Fin (- (4369703915154293 / 1152921504606846976))"
  by code_simp

lemma CountsToAcceleration_minus_one:
  "CountsToAcceleration (New MTS25Z8 Brushed comm) 0xFFFFFFFF =
     Fin (- (4369703915154293 / 1152921504606846976))"
  using minus_one_by_divisor
  by (simp add: CountsToAcceleration_def New_fields stage_scale_values motor_factor_values
      time_factor_squared acceleration_divisors(1) f64_of_int_def)

text \<open>
  C10 as stated fails: a negative acceleration has a count of at least \<open>2^31\<close> too, by
  wrap-around, and comes back as it was set. Here the acceleration is \<open>-1\<close> count, the
  count written 0xFFFFFFFF.
\<close>

theorem trapezoidal_acceleration_round_trip_counterexample:
  "2 ^ 31 \<le> unat (AccelerationToCounts (New MTS25Z8 Brushed (device_reply
       [0x15, 0x04, 0x0E, 0x00, 0x81, 0x50,
        0x01, 0x00, 0x00, 0x00, 0x00, 0x00, 0xFF, 0xFF, 0xFF, 0xFF, 0x00, 0x00, 0x00, 0x00]))
       (Fin (- (4369703915154293 / 1152921504606846976))))
   \<and> trace (Communication (snd (SetTrapezoidalVelocity
         (New MTS25Z8 Brushed (device_reply
           [0x15, 0x04, 0x0E, 0x00, 0x81, 0x50,
        0x01, 0x00, 0x00, 0x00, 0x00, 0x00, 0xFF, 0xFF, 0xFF, 0xFF, 0x00, 0x00, 0x00, 0x00]))
         1 \<lparr>VelocityProfile.MinVelocity = Fin 0, VelocityProfile.MaxVelocity = Fin 0,
             VelocityProfile.Acceleration = Fin (- (4369703915154293 / 1152921504606846976))\<rparr>))) =
       [IoWrite [0x13, 0x04, 0x0E, 0x00, 0xD0, 0x01,
                 0x01, 0x00, 0x00, 0x00, 0x00, 0x00, 0xFF, 0xFF, 0xFF, 0xFF,
                 0x00, 0x00, 0x00, 0x00]]
   \<and> fst (GetTrapezoidalVelocity (snd (SetTrapezoidalVelocity
         (New MTS25Z8 Brushed (device_reply
           [0x15, 0x04, 0x0E, 0x00, 0x81, 0x50,
        0x01, 0x00, 0x00, 0x00, 0x00, 0x00, 0xFF, 0xFF, 0xFF, 0xFF, 0x00, 0x00, 0x00, 0x00]))
         1 \<lparr>VelocityProfile.MinVelocity = Fin 0, VelocityProfile.MaxVelocity = Fin 0,
             VelocityProfile.Acceleration = Fin (- (4369703915154293 / 1152921504606846976))\<rparr>)) 1) =
       Inr \<lparr>VelocityProfile.MinVelocity = Fin 0, VelocityProfile.MaxVelocity = Fin 0,
            VelocityProfile.Acceleration = Fin (- (4369703915154293 / 1152921504606846976))\<rparr>"
proof -
  let ?k = "New MTS25Z8 Brushed (device_reply
       [0x15, 0x04, 0x0E, 0x00, 0x81, 0x50,
        0x01, 0x00, 0x00, 0x00, 0x00, 0x00, 0xFF, 0xFF, 0xFF, 0xFF, 0x00, 0x00, 0x00, 0x00])"
  let ?p = "\<lparr>VelocityProfile.MinVelocity = Fin 0, VelocityProfile.MaxVelocity = Fin 0,
             VelocityProfile.Acceleration = Fin (- (4369703915154293 / 1152921504606846976))\<rparr>"
  let ?reply = "\<lparr>DataMessage.ID = 0x0415, DataLength = 14, DataMessage.Destination = 0x01,
      DataMessage.Source = 0x50,
      Data = [0x01, 0x00, 0x00, 0x00, 0x00, 0x00, 0xFF, 0xFF, 0xFF, 0xFF, 0x00, 0x00, 0x00, 0x00]\<rparr>"
  have c: "AccelerationToCounts ?k (VelocityProfile.Acceleration ?p) = 0xFFFFFFFF"
    by (simp add: AccelerationToCounts_wraps)
  have h: "link_up (Communication ?k)" "pending (Communication ?k) = data_bytes ?reply"
    "DataLength ?reply = 14"
    by (simp_all add: New_fields device_reply_def data_bytes_def)
  have d: "Data ?reply =
           [0x01, 0x00] @ DwordToBytes (VelocityToCounts ?k (VelocityProfile.MinVelocity ?p))
           @ DwordToBytes (AccelerationToCounts ?k (VelocityProfile.Acceleration ?p))
           @ DwordToBytes (VelocityToCounts ?k (VelocityProfile.MaxVelocity ?p))"
    unfolding c by (simp add: VelocityToCounts_zero DwordToBytes_def)
  have t: "trace (Communication ?k) = []"
    by (simp add: New_fields device_reply_def)
  have w: "data_bytes (data_msg 0x0413 (Data ?reply)) =
      [0x13, 0x04, 0x0E, 0x00, 0xD0, 0x01,
       0x01, 0x00, 0x00, 0x00, 0x00, 0x00, 0xFF, 0xFF, 0xFF, 0xFF, 0x00, 0x00, 0x00, 0x00]"
    by (simp add: data_bytes_def data_msg_def GenericUnit_def Host_def)
  from trapezoidal_set_then_get [OF h d] c t w
  show ?thesis
    by (simp add: VelocityToCounts_zero CountsToVelocity_zero CountsToAcceleration_minus_one)
qed

end
